theory Spec2Isabelle
  imports Main "HOL-Library.Word" "HOL-Library.List_Lexorder"
begin

section \<open>Voice-to-todo app: the task list and the recording pipeline\<close>

text \<open>
  A shallow embedding of the React component \<^verbatim>\<open>VoiceToTodoApp\<close> of
  \<^verbatim>\<open>src/app/index.tsx\<close> (and of its earlier variant, the second source file, where
  the two differ). The component's \<^verbatim>\<open>useState\<close> cells and refs are the fields of one
  state record; every handler is a function from the state to the new state and the list of
  effects it issued (remote calls, alerts, console output), in the order of the source. What the
  outside world answers during one run of a handler (the clock, the remote persistence service,
  the transcription service, the audio APIs) is the handler's environment, a record of
  responses. A handler runs to completion on the state it is given: each \<^verbatim>\<open>await\<close> is
  resolved by the environment's response, an exception is the response \<open>Rejected\<close>.
\<close>

subsection \<open>Strings\<close>

text \<open>
  A JavaScript string is a sequence of 16-bit code units. \<open>js_str\<close> embeds an ASCII literal
  of the source.
\<close>

type_synonym js_string = "16 word list"

definition js_str :: "string \<Rightarrow> js_string" where
  "js_str s = map (\<lambda>c. of_nat (of_char c)) s"

text \<open>
  \<^verbatim>\<open>String.prototype.trim\<close> removes white space and line terminators from both ends
  (ECMAScript: TAB, VT, FF, SP, NBSP, ZWNBSP, the code points of category Zs, and LF, CR, LS,
  PS).
\<close>

definition js_is_white_space :: "16 word \<Rightarrow> bool" where
  "js_is_white_space c \<longleftrightarrow>
     c = 0x0009 \<or> c = 0x000A \<or> c = 0x000B \<or> c = 0x000C \<or> c = 0x000D \<or> c = 0x0020 \<or>
     c = 0x00A0 \<or> c = 0x1680 \<or> (0x2000 \<le> c \<and> c \<le> 0x200A) \<or> c = 0x2028 \<or> c = 0x2029 \<or>
     c = 0x202F \<or> c = 0x205F \<or> c = 0x3000 \<or> c = 0xFEFF"

definition trim :: "js_string \<Rightarrow> js_string" where
  "trim s = rev (dropWhile js_is_white_space (rev (dropWhile js_is_white_space s)))"

text \<open>
  The string of an integral number, as a template literal renders \<^verbatim>\<open>Date.now()\<close>:
  decimal digits, with a minus sign for a negative value.
\<close>

definition digit_unit :: "nat \<Rightarrow> 16 word" where
  "digit_unit d = of_nat (48 + d)"

fun digits :: "nat \<Rightarrow> js_string" where
  "digits n = (if n < 10 then [digit_unit n] else digits (n div 10) @ [digit_unit (n mod 10)])"

declare digits.simps [simp del]

definition number_to_string :: "int \<Rightarrow> js_string" where
  "number_to_string n = (if n < 0 then 0x002D # digits (nat (- n)) else digits (nat n))"

subsection \<open>Data model\<close>

text \<open>
  \<^verbatim>\<open>interface Task\<close>. An optional field is an option (\<open>None\<close>: the field is absent or
  null). \<^verbatim>\<open>completed\<close> and \<^verbatim>\<open>reminder_enabled\<close> are numbers used as flags (0 and 1).
\<close>

record Task =
  id' :: js_string
  user_id :: js_string
  title :: js_string
  description :: "js_string option"
  completed :: int
  deadline :: "js_string option"
  reminder_enabled :: int
  reminder_time :: "js_string option"
  created_at :: js_string
  updated_at :: js_string

text \<open>
  The object given to \<^verbatim>\<open>blink.db.tasks.update\<close>: each field is present or not; a
  present \<^verbatim>\<open>deadline\<close> is a string or null.
\<close>

record Patch =
  patch_completed :: "int option"
  patch_title :: "js_string option"
  patch_deadline :: "js_string option option"
  patch_updated_at :: "js_string option"

datatype 'a promise = Rejected | Fulfilled 'a

datatype platform = Web | Native

text \<open>The alerts of the source, by their titles and messages.\<close>

datatype alert =
    NoSpeechDetected           \<comment> \<open>'No speech detected', 'Please try recording again ...'\<close>
  | TranscriptionFailed        \<comment> \<open>'Transcription failed', 'Unable to convert speech to text ...'\<close>
  | TaskCreated js_string      \<comment> \<open>'Task Created!', '"..." has been added to your tasks.'\<close>
  | CreateTaskFailed           \<comment> \<open>'Error', 'Failed to create task. Please try again.'\<close>
  | ReadFileFailed             \<comment> \<open>'Error', 'Failed to read audio file. Please try again.'\<close>
  | ProcessRecordingFailed     \<comment> \<open>'Error', 'Failed to process recording. Please try again.'\<close>
  | StartRecordingFailed       \<comment> \<open>'Error', 'Failed to start recording. Please try again.'\<close>
  | PermissionRequired         \<comment> \<open>'Permission required', 'Please grant microphone permission ...'\<close>
  | PermissionDenied           \<comment> \<open>'Permission Denied', 'Please allow microphone access ...'\<close>
  | NotSupported               \<comment> \<open>'Not Supported', 'Voice recording is not supported ...'\<close>
  | WebRecording               \<comment> \<open>'Web Recording', 'Voice recording is not available on web ...'\<close>

datatype effect =
    DbCreate Task
  | DbUpdate js_string Patch
  | DbDelete js_string
  | DbList js_string
  | AiTranscribe js_string
  | ReadFile js_string
  | Alert alert
  | ConsoleError
  | RequestPermission
  | SetAudioMode
  | OpenRecording nat          \<comment> \<open>a native recording session was created\<close>
  | StopAndUnload nat
  | GetUserMedia
  | MediaRecorderStart nat     \<comment> \<open>a browser recorder was created and started\<close>
  | MediaRecorderStop nat
  | StopTracks
  | SetInterval nat
  | ClearInterval nat

record media_recorder =
  mr_handle :: nat
  mr_recording :: bool         \<comment> \<open>\<^verbatim>\<open>mediaRecorder.state === 'recording'\<close>\<close>

text \<open>
  The component's state: the \<^verbatim>\<open>useState\<close> cells, the \<^verbatim>\<open>recordingTimer\<close> ref, and the
  two pieces of the runtime the handlers write: the intervals that are running and
  \<^verbatim>\<open>window.currentMediaRecorder\<close>. \<open>user\<close> is the signed-in user's \<^verbatim>\<open>id\<close>
  (\<open>None\<close>: \<^verbatim>\<open>user\<close> is null); a recording is its handle.
\<close>

record app_state =
  tasks :: "Task list"
  isRecording :: bool
  recording :: "nat option"
  isTranscribing :: bool
  user :: "js_string option"
  editingTask :: "Task option"
  editModalVisible :: bool
  editTitle :: js_string
  editDeadline :: js_string
  isLoading :: bool
  recordingDuration :: int
  recordingTimer :: "nat option"
  runningIntervals :: "nat list"
  currentMediaRecorder :: "media_recorder option"

text \<open>
  What the outside answers during one run of a handler. The clock is read three times by a
  creation (\<^verbatim>\<open>Date.now()\<close> and two \<^verbatim>\<open>new Date().toISOString()\<close>) and once by an
  update (\<open>iso_updated\<close>).
\<close>

record env =
  platform :: platform
  date_now :: int
  iso_created :: js_string
  iso_updated :: js_string
  db_create :: "Task \<Rightarrow> Task promise"
  db_update :: "js_string \<Rightarrow> Patch \<Rightarrow> unit promise"
  db_delete :: "js_string \<Rightarrow> unit promise"
  db_list :: "js_string \<Rightarrow> Task list promise"
  ai_transcribe :: "js_string \<Rightarrow> js_string promise"
  read_file :: "js_string \<Rightarrow> js_string promise"
  has_media_devices :: bool
  get_user_media :: "unit promise"
  new_media_recorder :: "nat promise"
  request_permission :: "bool promise"
  set_audio_mode :: "unit promise"
  create_recording :: "nat promise"
  stop_and_unload :: "nat \<Rightarrow> unit promise"
  get_uri :: "nat \<Rightarrow> js_string option"
  set_interval :: nat

subsection \<open>Creating a task from recognised text\<close>

definition new_task :: "env \<Rightarrow> js_string \<Rightarrow> js_string \<Rightarrow> Task" where
  "new_task e uid ttl =
     \<lparr> id' = js_str ''task_'' @ number_to_string (date_now e),
       user_id = uid,
       title = ttl,
       description = None,
       completed = 0,
       deadline = None,
       reminder_enabled = 0,
       reminder_time = None,
       created_at = iso_created e,
       updated_at = iso_updated e \<rparr>"

text \<open>
  \<^verbatim>\<open>createTaskFromTranscription\<close>. With no user, \<^verbatim>\<open>user.id\<close> throws inside the
  \<^verbatim>\<open>try\<close> before the remote call is made.
\<close>

definition createTaskFromTranscription ::
    "env \<Rightarrow> app_state \<Rightarrow> js_string \<Rightarrow> app_state \<times> effect list" where
  "createTaskFromTranscription e st transcription =
     (case user st of
        None \<Rightarrow> (st, [ConsoleError, Alert CreateTaskFailed])
      | Some uid \<Rightarrow>
          let draft = new_task e uid transcription in
          (case db_create e draft of
             Rejected \<Rightarrow> (st, [DbCreate draft, ConsoleError, Alert CreateTaskFailed])
           | Fulfilled newTask \<Rightarrow>
               (st\<lparr>tasks := newTask # tasks st\<rparr>,
                [DbCreate draft, Alert (TaskCreated transcription)])))"

text \<open>
  \<^verbatim>\<open>transcribeAudio\<close> of \<^verbatim>\<open>index.tsx\<close>: the empty string is the only falsy string.
\<close>

definition transcribeAudio ::
    "env \<Rightarrow> app_state \<Rightarrow> js_string \<Rightarrow> app_state \<times> effect list" where
  "transcribeAudio e st audioBase64 =
     (case ai_transcribe e audioBase64 of
        Rejected \<Rightarrow> (st, [AiTranscribe audioBase64, ConsoleError, Alert TranscriptionFailed])
      | Fulfilled text \<Rightarrow>
          if trim text \<noteq> [] then
            (let (st', effs) = createTaskFromTranscription e st (trim text)
             in (st', AiTranscribe audioBase64 # effs))
          else (st, [AiTranscribe audioBase64, Alert NoSpeechDetected]))"

text \<open>
  \<^verbatim>\<open>transcribeAudioFromFile\<close> of \<^verbatim>\<open>index.tsx\<close>: reads the recorded file as base64.
\<close>

definition transcribeAudioFromFile ::
    "env \<Rightarrow> app_state \<Rightarrow> js_string \<Rightarrow> app_state \<times> effect list" where
  "transcribeAudioFromFile e st audioUri =
     (case read_file e audioUri of
        Rejected \<Rightarrow> (st, [ReadFile audioUri, ConsoleError, Alert ReadFileFailed])
      | Fulfilled audioBase64 \<Rightarrow>
          (let (st', effs) = transcribeAudio e st audioBase64
           in (st', ReadFile audioUri # effs)))"

text \<open>
  The earlier variant (second source file): creation shows no alert on success, and
  \<^verbatim>\<open>transcribeAudio\<close> reads the file itself, inside the same \<^verbatim>\<open>try\<close>.
\<close>

definition createTaskFromTranscription_part_000 ::
    "env \<Rightarrow> app_state \<Rightarrow> js_string \<Rightarrow> app_state \<times> effect list" where
  "createTaskFromTranscription_part_000 e st transcription =
     (case user st of
        None \<Rightarrow> (st, [ConsoleError, Alert CreateTaskFailed])
      | Some uid \<Rightarrow>
          let draft = new_task e uid transcription in
          (case db_create e draft of
             Rejected \<Rightarrow> (st, [DbCreate draft, ConsoleError, Alert CreateTaskFailed])
           | Fulfilled newTask \<Rightarrow> (st\<lparr>tasks := newTask # tasks st\<rparr>, [DbCreate draft])))"

definition transcribeAudio_part_000 ::
    "env \<Rightarrow> app_state \<Rightarrow> js_string \<Rightarrow> app_state \<times> effect list" where
  "transcribeAudio_part_000 e st audioUri =
     (case read_file e audioUri of
        Rejected \<Rightarrow> (st, [ReadFile audioUri, ConsoleError, Alert TranscriptionFailed])
      | Fulfilled audioBase64 \<Rightarrow>
          (case ai_transcribe e audioBase64 of
             Rejected \<Rightarrow>
               (st, [ReadFile audioUri, AiTranscribe audioBase64, ConsoleError,
                     Alert TranscriptionFailed])
           | Fulfilled text \<Rightarrow>
               if trim text \<noteq> [] then
                 (let (st', effs) = createTaskFromTranscription_part_000 e st (trim text)
                  in (st', ReadFile audioUri # AiTranscribe audioBase64 # effs))
               else (st, [ReadFile audioUri, AiTranscribe audioBase64,
                          Alert NoSpeechDetected])))"

subsection \<open>Sample tasks\<close>

definition sampleTasks :: "js_string list" where
  "sampleTasks =
     [js_str ''Buy groceries for the week'',
      js_str ''Call dentist to schedule appointment'',
      js_str ''Finish project presentation'',
      js_str ''Walk the dog in the evening'',
      js_str ''Review quarterly budget'',
      js_str ''Send follow-up email to client'',
      js_str ''Prepare for team meeting'',
      js_str ''Update portfolio website'']"

definition sampleTasks_part_000 :: "js_string list" where
  "sampleTasks_part_000 =
     [js_str ''Buy groceries for the week'',
      js_str ''Call dentist to schedule appointment'',
      js_str ''Finish project presentation'',
      js_str ''Walk the dog in the evening'',
      js_str ''Review quarterly budget'']"

text \<open>
  \<^verbatim>\<open>addSampleTask\<close>. \<open>r\<close> is the value of
  \<^verbatim>\<open>Math.floor(Math.random() * sampleTasks.length)\<close>, which is below the length
  (\<^verbatim>\<open>Math.random()\<close> is below 1); the model reduces it modulo the length.
\<close>

definition addSampleTask_from ::
    "js_string list \<Rightarrow> nat \<Rightarrow> env \<Rightarrow> app_state \<Rightarrow> app_state \<times> effect list" where
  "addSampleTask_from samples r e st =
     (let randomTask = samples ! (r mod length samples) in
      case user st of
        None \<Rightarrow> (st, [ConsoleError])
      | Some uid \<Rightarrow>
          let draft = new_task e uid randomTask in
          (case db_create e draft of
             Rejected \<Rightarrow> (st, [DbCreate draft, ConsoleError])
           | Fulfilled newTask \<Rightarrow> (st\<lparr>tasks := newTask # tasks st\<rparr>, [DbCreate draft])))"

definition addSampleTask :: "nat \<Rightarrow> env \<Rightarrow> app_state \<Rightarrow> app_state \<times> effect list" where
  "addSampleTask = addSampleTask_from sampleTasks"

definition addSampleTask_part_000 :: "nat \<Rightarrow> env \<Rightarrow> app_state \<Rightarrow> app_state \<times> effect list" where
  "addSampleTask_part_000 = addSampleTask_from sampleTasks_part_000"

subsection \<open>Toggle, delete, edit, load\<close>

text \<open>
  \<^verbatim>\<open>toggleTaskCompletion\<close> (the same in both files): the remote update is awaited first;
  the local list is mapped only when it succeeded. The remote patch carries
  \<^verbatim>\<open>updated_at\<close>, the local copy sets \<^verbatim>\<open>completed\<close> alone.
\<close>

definition newCompleted :: "Task \<Rightarrow> int" where
  "newCompleted task = (if completed task \<noteq> 0 then 0 else 1)"

definition toggle_patch :: "env \<Rightarrow> Task \<Rightarrow> Patch" where
  "toggle_patch e task =
     \<lparr> patch_completed = Some (newCompleted task), patch_title = None,
       patch_deadline = None, patch_updated_at = Some (iso_updated e) \<rparr>"

definition toggleTaskCompletion ::
    "env \<Rightarrow> app_state \<Rightarrow> Task \<Rightarrow> app_state \<times> effect list" where
  "toggleTaskCompletion e st task =
     (case db_update e (id' task) (toggle_patch e task) of
        Rejected \<Rightarrow> (st, [DbUpdate (id' task) (toggle_patch e task), ConsoleError])
      | Fulfilled _ \<Rightarrow>
          (st\<lparr>tasks :=
                map (\<lambda>t. if id' t = id' task then t\<lparr>completed := newCompleted task\<rparr> else t)
                  (tasks st)\<rparr>,
           [DbUpdate (id' task) (toggle_patch e task)]))"

text \<open>\<^verbatim>\<open>deleteTask\<close>: a failure is logged to the console only.\<close>

definition deleteTask :: "env \<Rightarrow> app_state \<Rightarrow> js_string \<Rightarrow> app_state \<times> effect list" where
  "deleteTask e st taskId =
     (case db_delete e taskId of
        Rejected \<Rightarrow> (st, [DbDelete taskId, ConsoleError])
      | Fulfilled _ \<Rightarrow>
          (st\<lparr>tasks := filter (\<lambda>t. id' t \<noteq> taskId) (tasks st)\<rparr>, [DbDelete taskId]))"

definition openEditModal :: "app_state \<Rightarrow> Task \<Rightarrow> app_state" where
  "openEditModal st task =
     st\<lparr>editingTask := Some task,
        editTitle := title task,
        editDeadline := (case deadline task of None \<Rightarrow> [] | Some d \<Rightarrow> d),
        editModalVisible := True\<rparr>"

text \<open>
  \<^verbatim>\<open>saveTaskEdit\<close>: the title is taken as it is; the remote patch has
  \<^verbatim>\<open>editDeadline || null\<close> and \<^verbatim>\<open>updated_at\<close>, the local copy gets
  \<^verbatim>\<open>editDeadline\<close> itself and no \<^verbatim>\<open>updated_at\<close>.
\<close>

definition edit_patch :: "env \<Rightarrow> app_state \<Rightarrow> Patch" where
  "edit_patch e st =
     \<lparr> patch_completed = None, patch_title = Some (editTitle st),
       patch_deadline = Some (if editDeadline st = [] then None else Some (editDeadline st)),
       patch_updated_at = Some (iso_updated e) \<rparr>"

definition saveTaskEdit :: "env \<Rightarrow> app_state \<Rightarrow> app_state \<times> effect list" where
  "saveTaskEdit e st =
     (case editingTask st of
        None \<Rightarrow> (st, [])
      | Some et \<Rightarrow>
          (case db_update e (id' et) (edit_patch e st) of
             Rejected \<Rightarrow> (st, [DbUpdate (id' et) (edit_patch e st), ConsoleError])
           | Fulfilled _ \<Rightarrow>
               (st\<lparr>tasks :=
                     map (\<lambda>t. if id' t = id' et
                               then t\<lparr>title := editTitle st, deadline := Some (editDeadline st)\<rparr>
                               else t)
                       (tasks st),
                   editModalVisible := False,
                   editingTask := None\<rparr>,
                [DbUpdate (id' et) (edit_patch e st)])))"

text \<open>
  \<^verbatim>\<open>loadTasks\<close>. The function reads the \<^verbatim>\<open>user\<close> of the render that created it,
  not the state at the time of the call: \<open>captured\<close> is that value. Nothing is done without
  a user id (null user, or an empty id); the fetched list replaces the local one.
\<close>

definition loadTasks :: "js_string option \<Rightarrow> env \<Rightarrow> app_state \<Rightarrow> app_state \<times> effect list" where
  "loadTasks captured e st =
     (case captured of
        None \<Rightarrow> (st, [])
      | Some uid \<Rightarrow>
          if uid = [] then (st, [])
          else (case db_list e uid of
                  Rejected \<Rightarrow> (st, [DbList uid, ConsoleError])
                | Fulfilled userTasks \<Rightarrow> (st\<lparr>tasks := userTasks\<rparr>, [DbList uid])))"

text \<open>
  The callback given to \<^verbatim>\<open>blink.auth.onAuthStateChanged\<close> by the mount effect
  (\<^verbatim>\<open>useEffect(..., [])\<close>), the only caller of \<^verbatim>\<open>loadTasks\<close>. The effect runs once,
  after the first render, so the \<^verbatim>\<open>loadTasks\<close> it calls is the one of the first render,
  where \<^verbatim>\<open>user\<close> is the initial null.
\<close>

definition onAuthStateChanged ::
    "env \<Rightarrow> app_state \<Rightarrow> js_string option \<Rightarrow> bool \<Rightarrow> app_state \<times> effect list" where
  "onAuthStateChanged e st state_user state_isLoading =
     (let st1 = st\<lparr>user := state_user, isLoading := state_isLoading\<rparr> in
      case state_user of
        None \<Rightarrow> (st1, [])
      | Some _ \<Rightarrow> loadTasks None e st1)"

subsection \<open>Recording\<close>

text \<open>
  \<^verbatim>\<open>startRecording\<close> of \<^verbatim>\<open>index.tsx\<close>. It reads none of \<^verbatim>\<open>isRecording\<close>,
  \<^verbatim>\<open>isTranscribing\<close> and \<^verbatim>\<open>recording\<close>. On the web, a failure of
  \<^verbatim>\<open>getUserMedia\<close>, of the recorder's construction or of its start is caught by the
  inner \<^verbatim>\<open>try\<close>; \<^verbatim>\<open>setInterval\<close> overwrites the ref and leaves an earlier interval
  running.
\<close>

definition begin_timer :: "env \<Rightarrow> app_state \<Rightarrow> app_state" where
  "begin_timer e st =
     st\<lparr>isRecording := True,
        recordingDuration := 0,
        recordingTimer := Some (set_interval e),
        runningIntervals := set_interval e # runningIntervals st\<rparr>"

definition startRecording :: "env \<Rightarrow> app_state \<Rightarrow> app_state \<times> effect list" where
  "startRecording e st =
     (if platform e = Web then
        (if \<not> has_media_devices e then (st, [Alert NotSupported])
         else
           (case get_user_media e of
              Rejected \<Rightarrow> (st, [GetUserMedia, Alert PermissionDenied])
            | Fulfilled _ \<Rightarrow>
                (case new_media_recorder e of
                   Rejected \<Rightarrow> (st, [GetUserMedia, Alert PermissionDenied])
                 | Fulfilled h \<Rightarrow>
                     ((begin_timer e st)
                        \<lparr>currentMediaRecorder := Some \<lparr>mr_handle = h, mr_recording = True\<rparr>\<rparr>,
                      [GetUserMedia, MediaRecorderStart h, SetInterval (set_interval e)]))))
      else
        (case request_permission e of
           Rejected \<Rightarrow> (st, [RequestPermission, ConsoleError, Alert StartRecordingFailed])
         | Fulfilled granted \<Rightarrow>
             if \<not> granted then (st, [RequestPermission, Alert PermissionRequired])
             else
               (case set_audio_mode e of
                  Rejected \<Rightarrow>
                    (st, [RequestPermission, SetAudioMode, ConsoleError,
                          Alert StartRecordingFailed])
                | Fulfilled _ \<Rightarrow>
                    (case create_recording e of
                       Rejected \<Rightarrow>
                         (st, [RequestPermission, SetAudioMode, ConsoleError,
                               Alert StartRecordingFailed])
                     | Fulfilled h \<Rightarrow>
                         (begin_timer e (st\<lparr>recording := Some h\<rparr>),
                          [RequestPermission, SetAudioMode, OpenRecording h,
                           SetInterval (set_interval e)])))))"

text \<open>One firing of a running interval: \<^verbatim>\<open>setRecordingDuration(prev => prev + 1)\<close>.\<close>

definition interval_tick :: "app_state \<Rightarrow> app_state" where
  "interval_tick st = st\<lparr>recordingDuration := recordingDuration st + 1\<rparr>"

text \<open>
  \<^verbatim>\<open>stopRecording\<close> of \<^verbatim>\<open>index.tsx\<close>. The \<^verbatim>\<open>finally\<close> block resets
  \<^verbatim>\<open>isTranscribing\<close> on every path; on the web the handler returns as soon as the recorder
  is told to stop, and the recorder's \<^verbatim>\<open>onstop\<close> callback runs the transcription later.
\<close>

definition clear_timer :: "app_state \<Rightarrow> app_state \<times> effect list" where
  "clear_timer st =
     (case recordingTimer st of
        None \<Rightarrow> (st, [])
      | Some t \<Rightarrow>
          (st\<lparr>recordingTimer := None, runningIntervals := removeAll t (runningIntervals st)\<rparr>,
           [ClearInterval t]))"

definition stopRecording :: "env \<Rightarrow> app_state \<Rightarrow> app_state \<times> effect list" where
  "stopRecording e st =
     (let (st1, effs1) = clear_timer (st\<lparr>isRecording := False, isTranscribing := True\<rparr>) in
      if platform e = Web then
        (case currentMediaRecorder st1 of
           None \<Rightarrow> (st1\<lparr>isTranscribing := False\<rparr>, effs1)
         | Some mr \<Rightarrow>
             if mr_recording mr then
               (st1\<lparr>currentMediaRecorder := Some (mr\<lparr>mr_recording := False\<rparr>),
                    isTranscribing := False\<rparr>,
                effs1 @ [MediaRecorderStop (mr_handle mr)])
             else (st1\<lparr>isTranscribing := False\<rparr>, effs1))
      else
        (case recording st1 of
           None \<Rightarrow> (st1\<lparr>isTranscribing := False\<rparr>, effs1)
         | Some r \<Rightarrow>
             (case stop_and_unload e r of
                Rejected \<Rightarrow>
                  (st1\<lparr>isTranscribing := False\<rparr>,
                   effs1 @ [StopAndUnload r, ConsoleError, Alert ProcessRecordingFailed])
              | Fulfilled _ \<Rightarrow>
                  (let (st2, effs2) =
                         (case get_uri e r of
                            None \<Rightarrow> (st1, [])
                          | Some uri \<Rightarrow>
                              if uri \<noteq> [] then transcribeAudioFromFile e st1 uri
                              else (st1, []))
                   in (st2\<lparr>recording := None, isTranscribing := False\<rparr>,
                       effs1 @ StopAndUnload r # effs2)))))"

text \<open>
  The browser recorder's \<^verbatim>\<open>onstop\<close> callback: the tracks are stopped and the recorded
  data, as base64, goes to \<^verbatim>\<open>transcribeAudio\<close>.
\<close>

definition mediaRecorder_onstop ::
    "env \<Rightarrow> app_state \<Rightarrow> js_string \<Rightarrow> app_state \<times> effect list" where
  "mediaRecorder_onstop e st base64Data =
     (let (st', effs) = transcribeAudio e st base64Data in (st', StopTracks # effs))"

text \<open>
  The record control of \<^verbatim>\<open>index.tsx\<close>: \<^verbatim>\<open>disabled={isTranscribing}\<close>, and
  \<^verbatim>\<open>onPress={isRecording ? stopRecording : startRecording}\<close>.
\<close>

definition recordButtonPress :: "env \<Rightarrow> app_state \<Rightarrow> app_state \<times> effect list" where
  "recordButtonPress e st =
     (if isTranscribing st then (st, [])
      else if isRecording st then stopRecording e st
      else startRecording e st)"

text \<open>
  The earlier variant: no browser recording, no timer; \<^verbatim>\<open>stopRecording\<close> returns at
  once without a recording; on the web the control adds a sample task.
\<close>

definition startRecording_part_000 :: "env \<Rightarrow> app_state \<Rightarrow> app_state \<times> effect list" where
  "startRecording_part_000 e st =
     (if platform e = Web then (st, [Alert WebRecording])
      else
        (case request_permission e of
           Rejected \<Rightarrow> (st, [RequestPermission, ConsoleError, Alert StartRecordingFailed])
         | Fulfilled granted \<Rightarrow>
             if \<not> granted then (st, [RequestPermission, Alert PermissionRequired])
             else
               (case set_audio_mode e of
                  Rejected \<Rightarrow>
                    (st, [RequestPermission, SetAudioMode, ConsoleError,
                          Alert StartRecordingFailed])
                | Fulfilled _ \<Rightarrow>
                    (case create_recording e of
                       Rejected \<Rightarrow>
                         (st, [RequestPermission, SetAudioMode, ConsoleError,
                               Alert StartRecordingFailed])
                     | Fulfilled h \<Rightarrow>
                         (st\<lparr>recording := Some h, isRecording := True\<rparr>,
                          [RequestPermission, SetAudioMode, OpenRecording h])))))"

definition stopRecording_part_000 :: "env \<Rightarrow> app_state \<Rightarrow> app_state \<times> effect list" where
  "stopRecording_part_000 e st =
     (case recording st of
        None \<Rightarrow> (st, [])
      | Some r \<Rightarrow>
          (let st1 = st\<lparr>isRecording := False, isTranscribing := True\<rparr> in
           case stop_and_unload e r of
             Rejected \<Rightarrow>
               (st1\<lparr>isTranscribing := False\<rparr>,
                [StopAndUnload r, ConsoleError, Alert ProcessRecordingFailed])
           | Fulfilled _ \<Rightarrow>
               (let (st2, effs2) =
                      (case get_uri e r of
                         None \<Rightarrow> (st1, [])
                       | Some uri \<Rightarrow>
                           if uri \<noteq> [] then transcribeAudio_part_000 e st1 uri
                           else (st1, []))
                in (st2\<lparr>recording := None, isTranscribing := False\<rparr>,
                    StopAndUnload r # effs2))))"

definition recordButtonPress_part_000 ::
    "nat \<Rightarrow> env \<Rightarrow> app_state \<Rightarrow> app_state \<times> effect list" where
  "recordButtonPress_part_000 r e st =
     (if isTranscribing st then (st, [])
      else if platform e = Web then addSampleTask_part_000 r e st
      else if isRecording st then stopRecording_part_000 e st
      else startRecording_part_000 e st)"

subsection \<open>Reading the effects of a run\<close>

text \<open>The records given to \<^verbatim>\<open>blink.db.tasks.create\<close> during a run, in order.\<close>

fun create_calls :: "effect list \<Rightarrow> Task list" where
  "create_calls [] = []"
| "create_calls (DbCreate d # effs) = d # create_calls effs"
| "create_calls (_ # effs) = create_calls effs"

text \<open>
  A run is atomic on the task list when the list changes in one way only: at most one create
  call was made, and the list after is the list before, with the record the remote returned
  in front when that call succeeded.
\<close>

definition prepends_created :: "env \<Rightarrow> Task list \<Rightarrow> Task list \<Rightarrow> effect list \<Rightarrow> bool" where
  "prepends_created e before after effs =
     (case create_calls effs of
        [] \<Rightarrow> after = before
      | [draft] \<Rightarrow>
          (case db_create e draft of
             Rejected \<Rightarrow> after = before
           | Fulfilled newTask \<Rightarrow> after = newTask # before)
      | _ \<Rightarrow> False)"

definition atomic_create :: "env \<Rightarrow> app_state \<Rightarrow> app_state \<times> effect list \<Rightarrow> bool" where
  "atomic_create e st r = prepends_created e (tasks st) (tasks (fst r)) (snd r)"

subsection \<open>Example inputs\<close>

definition ex_env :: env where
  "ex_env =
     \<lparr> platform = Native,
       date_now = 1700000000123,
       iso_created = js_str ''2023-11-14T22:13:20.123Z'',
       iso_updated = js_str ''2023-11-14T22:13:20.124Z'',
       db_create = Fulfilled,
       db_update = (\<lambda>_ _. Fulfilled ()),
       db_delete = (\<lambda>_. Fulfilled ()),
       db_list = (\<lambda>_. Fulfilled []),
       ai_transcribe = (\<lambda>_. Fulfilled (js_str ''  buy milk '')),
       read_file = (\<lambda>_. Fulfilled (js_str ''UklGRg=='')),
       has_media_devices = True,
       get_user_media = Fulfilled (),
       new_media_recorder = Fulfilled 1,
       request_permission = Fulfilled True,
       set_audio_mode = Fulfilled (),
       create_recording = Fulfilled 8,
       stop_and_unload = (\<lambda>_. Fulfilled ()),
       get_uri = (\<lambda>_. Some (js_str ''file:///rec.wav'')),
       set_interval = 4 \<rparr>"

definition ex_task :: Task where
  "ex_task =
     \<lparr> id' = js_str ''task_1699999999000'',
       user_id = js_str ''u1'',
       title = js_str ''walk the dog'',
       description = None,
       completed = 0,
       deadline = None,
       reminder_enabled = 0,
       reminder_time = None,
       created_at = js_str ''2023-11-14T22:13:19.000Z'',
       updated_at = js_str ''2023-11-14T22:13:19.000Z'' \<rparr>"

definition ex_task_b :: Task where
  "ex_task_b =
     \<lparr> id' = js_str ''task_1699999998000'',
       user_id = js_str ''u1'',
       title = js_str ''call dentist'',
       description = None,
       completed = 1,
       deadline = Some (js_str ''2023-12-01''),
       reminder_enabled = 0,
       reminder_time = None,
       created_at = js_str ''2023-11-14T22:13:18.000Z'',
       updated_at = js_str ''2023-11-14T22:13:18.500Z'' \<rparr>"

definition ex_state :: app_state where
  "ex_state =
     \<lparr> tasks = [ex_task, ex_task_b],
       isRecording = False,
       recording = None,
       isTranscribing = False,
       user = Some (js_str ''u1''),
       editingTask = None,
       editModalVisible = False,
       editTitle = [],
       editDeadline = [],
       isLoading = False,
       recordingDuration = 0,
       recordingTimer = None,
       runningIntervals = [],
       currentMediaRecorder = None \<rparr>"

text \<open>A transcription that is white space only: SP, TAB, LF, NBSP, IDEOGRAPHIC SPACE.\<close>

definition ex_env_blank :: env where
  "ex_env_blank = ex_env\<lparr>ai_transcribe := (\<lambda>_. Fulfilled [0x0020, 0x0009, 0x000A, 0x00A0, 0x3000])\<rparr>"

text \<open>A remote that normalises the title of the record it stores.\<close>

definition ex_env_normalising :: env where
  "ex_env_normalising = ex_env\<lparr>db_create := (\<lambda>d. Fulfilled (d\<lparr>title := js_str ''Buy milk''\<rparr>))\<rparr>"

text \<open>The edit dialog opened on the first task, with the title field emptied.\<close>

definition ex_state_editing :: app_state where
  "ex_state_editing = (openEditModal ex_state ex_task)\<lparr>editTitle := []\<rparr>"

subsection \<open>Session effects\<close>

text \<open>The effects that open a recording session or start a timer.\<close>

fun is_start_effect :: "effect \<Rightarrow> bool" where
  "is_start_effect (OpenRecording _) = True"
| "is_start_effect (MediaRecorderStart _) = True"
| "is_start_effect (SetInterval _) = True"
| "is_start_effect _ = False"

text \<open>
  In the browser: a recording in progress for five seconds (recorder 1, timer 3), and an
  environment in which the next recorder is recorder 2.
\<close>

definition ex_state_recording_web :: app_state where
  "ex_state_recording_web =
     ex_state\<lparr>isRecording := True, recordingDuration := 5, recordingTimer := Some 3,
              runningIntervals := [3],
              currentMediaRecorder := Some \<lparr>mr_handle = 1, mr_recording = True\<rparr>\<rparr>"

definition ex_env_web :: env where
  "ex_env_web = ex_env\<lparr>platform := Web, new_media_recorder := Fulfilled 2\<rparr>"

text \<open>
  On the device: the state inside \<^verbatim>\<open>stopRecording\<close> while the transcription is awaited.
\<close>

definition ex_state_transcribing :: app_state where
  "ex_state_transcribing = ex_state\<lparr>isTranscribing := True, recording := Some 7\<rparr>"

text \<open>A sequence of presses of the record control, each with its own environment.\<close>

definition press_all :: "env list \<Rightarrow> app_state \<Rightarrow> app_state" where
  "press_all es st = fold (\<lambda>e s. fst (recordButtonPress e s)) es st"

definition press_all_part_000 :: "(nat \<times> env) list \<Rightarrow> app_state \<Rightarrow> app_state" where
  "press_all_part_000 es st = fold (\<lambda>(r, e) s. fst (recordButtonPress_part_000 r e s)) es st"

subsection \<open>Sequences of creations\<close>

datatype create_op = VoiceCreate js_string | SampleCreate nat

fun create_step :: "env \<times> create_op \<Rightarrow> app_state \<Rightarrow> app_state" where
  "create_step (e, VoiceCreate transcription) st =
     fst (createTaskFromTranscription e st transcription)"
| "create_step (e, SampleCreate r) st = fst (addSampleTask r e st)"

definition run_creates :: "(env \<times> create_op) list \<Rightarrow> app_state \<Rightarrow> app_state" where
  "run_creates ops st = fold create_step ops st"

text \<open>A second reading of the clock, one millisecond after that of \<open>ex_env\<close>.\<close>

definition ex_env_later :: env where
  "ex_env_later =
     ex_env\<lparr>date_now := 1700000000124,
            iso_created := js_str ''2023-11-14T22:13:20.124Z'',
            iso_updated := js_str ''2023-11-14T22:13:20.125Z''\<rparr>"

subsection \<open>The remote persistence service\<close>

text \<open>
  The persistence service behind \<^verbatim>\<open>blink.db.tasks\<close> is not part of the sources. Its
  contract is \<^verbatim>\<open>list(filter, order)\<close>, \<^verbatim>\<open>create(record)\<close>,
  \<^verbatim>\<open>update(id, patch)\<close>, \<^verbatim>\<open>delete(id)\<close> on records of the task shape. The
  model is a table of records.
\<close>

type_synonym remote_db = "Task list"

text \<open>
  Modelled from the spec: \<^verbatim>\<open>update(id, patch)\<close> of the persistence service, on one
  record. The fields present in the patch are overwritten, the others kept.
\<close>

definition apply_patch :: "Patch \<Rightarrow> Task \<Rightarrow> Task" where
  "apply_patch p t =
     t\<lparr>completed := (case patch_completed p of None \<Rightarrow> completed t | Some c \<Rightarrow> c),
       title := (case patch_title p of None \<Rightarrow> title t | Some s \<Rightarrow> s),
       deadline := (case patch_deadline p of None \<Rightarrow> deadline t | Some d \<Rightarrow> d),
       updated_at := (case patch_updated_at p of None \<Rightarrow> updated_at t | Some s \<Rightarrow> s)\<rparr>"

text \<open>
  Modelled from the spec: what a call does to the table of the persistence service. A create
  stores the record it is given, an update patches the records with the id, a delete removes
  them; no other effect reaches the table.
\<close>

fun remote_apply :: "effect \<Rightarrow> remote_db \<Rightarrow> remote_db" where
  "remote_apply (DbCreate d) db = db @ [d]"
| "remote_apply (DbUpdate k p) db = map (\<lambda>t. if id' t = k then apply_patch p t else t) db"
| "remote_apply (DbDelete k) db = filter (\<lambda>t. id' t \<noteq> k) db"
| "remote_apply _ db = db"

text \<open>
  Modelled from the spec: \<^verbatim>\<open>list\<close> of the persistence service, with the filter and
  the order that \<^verbatim>\<open>loadTasks\<close> gives: the records of the user, by
  \<^verbatim>\<open>created_at\<close>, latest first.
\<close>

definition remote_list :: "js_string \<Rightarrow> remote_db \<Rightarrow> Task list" where
  "remote_list uid db = rev (sort_key created_at (filter (\<lambda>t. user_id t = uid) db))"

text \<open>
  Modelled from the spec: the responses of a persistence service that holds \<open>db\<close> and on
  which every call succeeds; a create returns the record it stored.
\<close>

definition remote_env :: "env \<Rightarrow> remote_db \<Rightarrow> env" where
  "remote_env e db =
     e\<lparr>db_create := Fulfilled,
       db_update := (\<lambda>_ _. Fulfilled ()),
       db_delete := (\<lambda>_. Fulfilled ()),
       db_list := (\<lambda>uid. Fulfilled (remote_list uid db))\<rparr>"

text \<open>A handler run against the remote: the remote then applies the calls the run made.\<close>

definition run_with_remote ::
    "(env \<Rightarrow> app_state \<Rightarrow> app_state \<times> effect list) \<Rightarrow> env \<Rightarrow> app_state \<times> remote_db \<Rightarrow>
     app_state \<times> remote_db" where
  "run_with_remote handler e cfg =
     (let (st', effs) = handler (remote_env e (snd cfg)) (fst cfg)
      in (st', fold remote_apply effs (snd cfg)))"

text \<open>
  A session from an empty store and an empty remote: one sample task is created, then
  toggled a millisecond later; then its edit dialog is opened and saved with the deadline
  field left empty.
\<close>

definition ex_created :: "app_state \<times> remote_db" where
  "ex_created = run_with_remote (addSampleTask 0) ex_env (ex_state\<lparr>tasks := []\<rparr>, [])"

definition ex_toggled :: "app_state \<times> remote_db" where
  "ex_toggled =
     run_with_remote (\<lambda>e st. toggleTaskCompletion e st (hd (tasks st))) ex_env_later ex_created"

definition ex_edited :: "app_state \<times> remote_db" where
  "ex_edited =
     run_with_remote (\<lambda>e st. saveTaskEdit e (openEditModal st (hd (tasks st)))) ex_env_later
       ex_created"

text \<open>A remote on which every update fails.\<close>

definition ex_env_offline :: env where
  "ex_env_offline = ex_env\<lparr>db_update := (\<lambda>_ _. Rejected)\<rparr>"

text \<open>A remote on which every delete fails.\<close>

definition ex_env_delete_fails :: env where
  "ex_env_delete_fails = ex_env\<lparr>db_delete := (\<lambda>_. Rejected)\<rparr>"

section \<open>Properties\<close>

subsection \<open>Strings\<close>

lemma dropWhile_all_iff: "(\<forall>x\<in>set (dropWhile P xs). P x) \<longleftrightarrow> (\<forall>x\<in>set xs. P x)"
  by (induction xs) auto

lemma trim_empty_iff: "trim s = [] \<longleftrightarrow> (\<forall>c\<in>set s. js_is_white_space c)"
  by (simp add: trim_def dropWhile_eq_Nil_conv dropWhile_all_iff)

lemma digits_lt_10: "n < 10 \<Longrightarrow> digits n = [digit_unit n]"
  by (subst digits.simps) simp

lemma digits_ge_10: "10 \<le> n \<Longrightarrow> digits n = digits (n div 10) @ [digit_unit (n mod 10)]"
  by (subst digits.simps) simp

lemmas eval_string = js_str_def number_to_string_def digits_lt_10 digits_ge_10 digit_unit_def
  trim_def js_is_white_space_def

subsection \<open>Creation is the only change of the task list in the pipeline\<close>

lemma create_calls_Cons: "create_calls (x # effs) = create_calls [x] @ create_calls effs"
  by (cases x) simp_all

lemma create_calls_append: "create_calls (xs @ ys) = create_calls xs @ create_calls ys"
  by (induction xs rule: create_calls.induct) auto

lemma prepends_created_skip:
  "create_calls [x] = [] \<Longrightarrow> prepends_created e b a (x # effs) = prepends_created e b a effs"
  using create_calls_Cons [of x effs] by (simp add: prepends_created_def)

lemma prepends_created_skips:
  "create_calls xs = [] \<Longrightarrow> prepends_created e b a (xs @ effs) = prepends_created e b a effs"
  by (simp add: prepends_created_def create_calls_append)

lemma prepends_created_none: "create_calls effs = [] \<Longrightarrow> prepends_created e b a effs = (a = b)"
  by (simp add: prepends_created_def)

lemmas atomic_simps = atomic_create_def prepends_created_skip prepends_created_skips
  prepends_created_none case_prod_beta

lemma atomic_createTask: "atomic_create e st (createTaskFromTranscription e st tr)"
  by (simp add: atomic_create_def prepends_created_def createTaskFromTranscription_def Let_def
      split: option.split promise.split)

lemma atomic_createTask_part_000:
  "atomic_create e st (createTaskFromTranscription_part_000 e st tr)"
  by (simp add: atomic_create_def prepends_created_def createTaskFromTranscription_part_000_def
      Let_def split: option.split promise.split)

lemma atomic_addSampleTask_from: "atomic_create e st (addSampleTask_from xs r e st)"
  by (simp add: atomic_create_def prepends_created_def addSampleTask_from_def Let_def
      split: option.split promise.split)

lemma atomic_transcribeAudio: "atomic_create e st (transcribeAudio e st a)"
  using atomic_createTask [of e st]
  by (simp add: transcribeAudio_def atomic_simps split: promise.split)

lemma atomic_transcribeAudio_part_000: "atomic_create e st (transcribeAudio_part_000 e st a)"
  using atomic_createTask_part_000 [of e st]
  by (simp add: transcribeAudio_part_000_def atomic_simps split: promise.split)

lemma atomic_transcribeAudioFromFile: "atomic_create e st (transcribeAudioFromFile e st a)"
  using atomic_transcribeAudio [of e st]
  by (simp add: transcribeAudioFromFile_def atomic_simps split: promise.split)

lemma atomic_mediaRecorder_onstop: "atomic_create e st (mediaRecorder_onstop e st a)"
  using atomic_transcribeAudio [of e st]
  by (simp add: mediaRecorder_onstop_def atomic_simps)

lemma atomic_startRecording: "atomic_create e st (startRecording e st)"
  by (simp add: startRecording_def begin_timer_def atomic_simps split: promise.split)

lemma atomic_startRecording_part_000: "atomic_create e st (startRecording_part_000 e st)"
  by (simp add: startRecording_part_000_def atomic_simps split: promise.split)

lemma clear_timer_tasks: "tasks (fst (clear_timer st)) = tasks st"
  by (simp add: clear_timer_def split: option.split)

lemma clear_timer_calls: "create_calls (snd (clear_timer st)) = []"
  by (simp add: clear_timer_def split: option.split)

lemma atomic_stopRecording: "atomic_create e st (stopRecording e st)"
proof -
  let ?s = "st\<lparr>isRecording := False, isTranscribing := True\<rparr>"
  obtain st1 effs1 where ct: "clear_timer ?s = (st1, effs1)"
    by (cases "clear_timer ?s")
  have t1: "tasks st1 = tasks st"
    using clear_timer_tasks [of ?s] ct by simp
  have c1: "create_calls effs1 = []"
    using clear_timer_calls [of ?s] ct by simp
  have "atomic_create e st1 (transcribeAudioFromFile e st1 uri)" for uri
    by (rule atomic_transcribeAudioFromFile)
  then show ?thesis
    by (simp add: stopRecording_def ct t1 c1 atomic_simps split: option.split promise.split)
qed

lemma atomic_stopRecording_part_000: "atomic_create e st (stopRecording_part_000 e st)"
proof -
  let ?s = "st\<lparr>isRecording := False, isTranscribing := True\<rparr>"
  have "atomic_create e ?s (transcribeAudio_part_000 e ?s uri)" for uri
    by (rule atomic_transcribeAudio_part_000)
  then show ?thesis
    by (simp add: stopRecording_part_000_def Let_def atomic_simps
        split: option.split promise.split)
qed

lemma atomic_recordButtonPress: "atomic_create e st (recordButtonPress e st)"
  using atomic_stopRecording [of e st] atomic_startRecording [of e st]
  by (simp add: recordButtonPress_def) (simp add: atomic_simps)

lemma atomic_recordButtonPress_part_000:
  "atomic_create e st (recordButtonPress_part_000 r e st)"
  using atomic_stopRecording_part_000 [of e st] atomic_startRecording_part_000 [of e st]
    atomic_addSampleTask_from [of e st sampleTasks_part_000 r]
  by (simp add: recordButtonPress_part_000_def addSampleTask_part_000_def)
    (simp add: atomic_simps)

subsection \<open>The claims about the transcription pipeline\<close>

text \<open>
  Claim C1. When the transcription service returns a text whose trimmed value is not empty
  (and a user is signed in), the pipeline calls the remote create exactly once after the
  transcription call, with a record whose title is the trimmed text, whose \<open>completed\<close> is 0
  and whose id is \<^verbatim>\<open>task_\<close> followed by the clock reading taken at that call; when the
  remote create succeeds, the record it returns is the first element of the local task list.
  The same holds in the earlier variant, which reads the file first.
\<close>

theorem C1_recognized_text_creates_task:
  assumes ai: "ai_transcribe e audioBase64 = Fulfilled text"
    and nonempty: "trim text \<noteq> []"
    and signed_in: "user st = Some uid"
    and rd: "read_file e audioUri = Fulfilled audioBase64"
  shows "\<exists>draft.
           create_calls (snd (transcribeAudio e st audioBase64)) = [draft] \<and>
           take 2 (snd (transcribeAudio e st audioBase64)) =
             [AiTranscribe audioBase64, DbCreate draft] \<and>
           create_calls (snd (transcribeAudio_part_000 e st audioUri)) = [draft] \<and>
           title draft = trim text \<and> completed draft = 0 \<and>
           id' draft = js_str ''task_'' @ number_to_string (date_now e) \<and>
           (case db_create e draft of
              Fulfilled newTask \<Rightarrow>
                tasks (fst (transcribeAudio e st audioBase64)) = newTask # tasks st \<and>
                tasks (fst (transcribeAudio_part_000 e st audioUri)) = newTask # tasks st
            | Rejected \<Rightarrow>
                tasks (fst (transcribeAudio e st audioBase64)) = tasks st \<and>
                tasks (fst (transcribeAudio_part_000 e st audioUri)) = tasks st)"
  using assms
  by (simp add: transcribeAudio_def transcribeAudio_part_000_def createTaskFromTranscription_def
      createTaskFromTranscription_part_000_def new_task_def Let_def split: promise.split)

theorem C1_recognized_text_creates_task_witness:
  "\<exists>draft.
     create_calls (snd (transcribeAudio ex_env ex_state (js_str ''UklGRg==''))) = [draft] \<and>
     take 2 (snd (transcribeAudio ex_env ex_state (js_str ''UklGRg==''))) =
       [AiTranscribe (js_str ''UklGRg==''), DbCreate draft] \<and>
     create_calls (snd (transcribeAudio_part_000 ex_env ex_state (js_str ''file:///rec.wav''))) =
       [draft] \<and>
     title draft = js_str ''buy milk'' \<and> completed draft = 0 \<and>
     id' draft = js_str ''task_1700000000123'' \<and>
     tasks (fst (transcribeAudio ex_env ex_state (js_str ''UklGRg==''))) =
       [draft, ex_task, ex_task_b] \<and>
     tasks (fst (transcribeAudio_part_000 ex_env ex_state (js_str ''file:///rec.wav''))) =
       [draft, ex_task, ex_task_b]"
proof -
  have ai: "ai_transcribe ex_env (js_str ''UklGRg=='') = Fulfilled (js_str ''  buy milk '')"
    by (simp add: ex_env_def)
  have tr: "trim (js_str ''  buy milk '') = js_str ''buy milk''"
    by (simp add: eval_string)
  have ne: "trim (js_str ''  buy milk '') \<noteq> []"
    by (simp add: eval_string)
  have u: "user ex_state = Some (js_str ''u1'')"
    by (simp add: ex_state_def)
  have rd: "read_file ex_env (js_str ''file:///rec.wav'') = Fulfilled (js_str ''UklGRg=='')"
    by (simp add: ex_env_def)
  have num: "number_to_string (date_now ex_env) = js_str ''1700000000123''"
    by (simp add: ex_env_def eval_string)
  have t: "tasks ex_state = [ex_task, ex_task_b]"
    by (simp add: ex_state_def)
  have cr: "db_create ex_env = Fulfilled"
    by (simp add: ex_env_def)
  from C1_recognized_text_creates_task [OF ai ne u rd] show ?thesis
    unfolding tr num t cr by (simp add: js_str_def)
qed

text \<open>
  Claim C2. When the transcription service returns a text that consists of white space only
  (the empty text included), the run ends with the alert ``No speech detected'', makes no
  create call and leaves the whole state, the task list with it, as it was. This holds for
  \<^verbatim>\<open>transcribeAudio\<close>, for \<^verbatim>\<open>transcribeAudioFromFile\<close> and for the earlier variant.
\<close>

theorem C2_blank_text_no_speech:
  assumes ws: "\<forall>c\<in>set text. js_is_white_space c"
    and ai: "ai_transcribe e audioBase64 = Fulfilled text"
    and rd: "read_file e audioUri = Fulfilled audioBase64"
  shows "transcribeAudio e st audioBase64 =
           (st, [AiTranscribe audioBase64, Alert NoSpeechDetected]) \<and>
         create_calls (snd (transcribeAudio e st audioBase64)) = [] \<and>
         transcribeAudioFromFile e st audioUri =
           (st, [ReadFile audioUri, AiTranscribe audioBase64, Alert NoSpeechDetected]) \<and>
         transcribeAudio_part_000 e st audioUri =
           (st, [ReadFile audioUri, AiTranscribe audioBase64, Alert NoSpeechDetected])"
proof -
  from ws have "trim text = []"
    by (simp add: trim_empty_iff)
  with ai rd show ?thesis
    by (simp add: transcribeAudio_def transcribeAudioFromFile_def transcribeAudio_part_000_def)
qed

theorem C2_blank_text_no_speech_witness:
  "transcribeAudio ex_env_blank ex_state (js_str ''UklGRg=='') =
     (ex_state, [AiTranscribe (js_str ''UklGRg==''), Alert NoSpeechDetected]) \<and>
   create_calls (snd (transcribeAudio ex_env_blank ex_state (js_str ''UklGRg==''))) = [] \<and>
   transcribeAudioFromFile ex_env_blank ex_state (js_str ''file:///rec.wav'') =
     (ex_state, [ReadFile (js_str ''file:///rec.wav''), AiTranscribe (js_str ''UklGRg==''),
                 Alert NoSpeechDetected]) \<and>
   transcribeAudio_part_000 ex_env_blank ex_state (js_str ''file:///rec.wav'') =
     (ex_state, [ReadFile (js_str ''file:///rec.wav''), AiTranscribe (js_str ''UklGRg==''),
                 Alert NoSpeechDetected]) \<and>
   length (tasks (fst (transcribeAudio ex_env_blank ex_state (js_str ''UklGRg==''))))
     = length (tasks ex_state)"
proof -
  have ws: "\<forall>c\<in>set [0x0020, 0x0009, 0x000A, 0x00A0, 0x3000]. js_is_white_space c"
    by (simp add: js_is_white_space_def)
  have ai: "ai_transcribe ex_env_blank (js_str ''UklGRg=='') =
              Fulfilled [0x0020, 0x0009, 0x000A, 0x00A0, 0x3000]"
    by (simp add: ex_env_blank_def)
  have rd: "read_file ex_env_blank (js_str ''file:///rec.wav'') = Fulfilled (js_str ''UklGRg=='')"
    by (simp add: ex_env_blank_def ex_env_def)
  from C2_blank_text_no_speech [OF ws ai rd, of ex_state] show ?thesis
    by simp
qed

text \<open>
  Claim C3. Creation is atomic on the local list. In every handler of the pipeline (start,
  stop, the record control, reading the file, transcription, the browser recorder's callback,
  creation itself, in both variants) at most one create call is made and the task list after
  the run is the list before it, with exactly the record returned by the remote in front when
  that call succeeded, and unchanged when the call failed or was never reached.
\<close>

theorem C3_create_is_atomic:
  "atomic_create e st (createTaskFromTranscription e st transcription) \<and>
   atomic_create e st (transcribeAudio e st audio) \<and>
   atomic_create e st (transcribeAudioFromFile e st audio) \<and>
   atomic_create e st (mediaRecorder_onstop e st audio) \<and>
   atomic_create e st (stopRecording e st) \<and>
   atomic_create e st (startRecording e st) \<and>
   atomic_create e st (recordButtonPress e st) \<and>
   atomic_create e st (createTaskFromTranscription_part_000 e st transcription) \<and>
   atomic_create e st (transcribeAudio_part_000 e st audio) \<and>
   atomic_create e st (stopRecording_part_000 e st) \<and>
   atomic_create e st (startRecording_part_000 e st) \<and>
   atomic_create e st (recordButtonPress_part_000 r e st)"
  by (simp add: atomic_createTask atomic_transcribeAudio atomic_transcribeAudioFromFile
      atomic_mediaRecorder_onstop atomic_stopRecording atomic_startRecording
      atomic_recordButtonPress atomic_createTask_part_000 atomic_transcribeAudio_part_000
      atomic_stopRecording_part_000 atomic_startRecording_part_000
      atomic_recordButtonPress_part_000)

theorem C3_create_is_atomic_witness:
  "tasks (fst (createTaskFromTranscription ex_env_normalising ex_state (js_str ''buy milk''))) =
     (new_task ex_env (js_str ''u1'') (js_str ''buy milk''))\<lparr>title := js_str ''Buy milk''\<rparr> #
     tasks ex_state"
proof -
  let ?draft = "new_task ex_env (js_str ''u1'') (js_str ''buy milk'')"
  have draft: "new_task ex_env_normalising (js_str ''u1'') (js_str ''buy milk'') = ?draft"
    by (simp add: new_task_def ex_env_normalising_def)
  have returned: "db_create ex_env_normalising ?draft =
      Fulfilled (?draft\<lparr>title := js_str ''Buy milk''\<rparr>)"
    by (simp add: ex_env_normalising_def)
  have calls: "create_calls
      (snd (createTaskFromTranscription ex_env_normalising ex_state (js_str ''buy milk''))) =
      [?draft]"
    by (simp add: createTaskFromTranscription_def Let_def draft returned ex_state_def)
  from C3_create_is_atomic [THEN conjunct1, of ex_env_normalising ex_state "js_str ''buy milk''"]
  show ?thesis
    by (simp add: atomic_create_def prepends_created_def calls returned)
qed

subsection \<open>The claims about toggle, delete and edit\<close>

text \<open>
  Claim C4 (as amended). For the task at any position of the store, a toggle whose remote
  update succeeds sets the task's \<open>completed\<close> to the flipped flag (0 when it was not 0, 1
  when it was 0), once; a second toggle, of the record as it then is, returns the flag to its
  original truth value, and the record to its original value when \<open>completed\<close> was 0 or 1;
  each call sends the remote one update, with the flipped flag and the clock reading of that
  call as \<^verbatim>\<open>updated_at\<close>.
\<close>

theorem C4_toggle_flips_and_returns:
  assumes i: "i < length (tasks st)"
    and oka: "db_update ea (id' (tasks st ! i)) (toggle_patch ea (tasks st ! i)) = Fulfilled ()"
    and sta_def: "sta = fst (toggleTaskCompletion ea st (tasks st ! i))"
    and okb: "db_update eb (id' (tasks sta ! i)) (toggle_patch eb (tasks sta ! i)) = Fulfilled ()"
    and stb_def: "stb = fst (toggleTaskCompletion eb sta (tasks sta ! i))"
  shows "tasks sta ! i =
           (tasks st ! i)\<lparr>completed := (if completed (tasks st ! i) \<noteq> 0 then 0 else 1)\<rparr> \<and>
         (completed (tasks sta ! i) \<noteq> 0) = (completed (tasks st ! i) = 0) \<and>
         (completed (tasks stb ! i) \<noteq> 0) = (completed (tasks st ! i) \<noteq> 0) \<and>
         (completed (tasks st ! i) \<in> {0, 1} \<longrightarrow> tasks stb ! i = tasks st ! i) \<and>
         snd (toggleTaskCompletion ea st (tasks st ! i)) =
           [DbUpdate (id' (tasks st ! i))
              \<lparr>patch_completed = Some (completed (tasks sta ! i)), patch_title = None,
               patch_deadline = None, patch_updated_at = Some (iso_updated ea)\<rparr>] \<and>
         snd (toggleTaskCompletion eb sta (tasks sta ! i)) =
           [DbUpdate (id' (tasks st ! i))
              \<lparr>patch_completed = Some (completed (tasks stb ! i)), patch_title = None,
               patch_deadline = None, patch_updated_at = Some (iso_updated eb)\<rparr>]"
proof -
  let ?t = "tasks st ! i"
  have l1: "tasks sta = map (\<lambda>t. if id' t = id' ?t then t\<lparr>completed := newCompleted ?t\<rparr> else t) (tasks st)"
    using oka sta_def by (simp add: toggleTaskCompletion_def)
  have t1: "tasks sta ! i = ?t\<lparr>completed := newCompleted ?t\<rparr>"
    using i by (simp add: l1)
  have i1: "i < length (tasks sta)"
    using i by (simp add: l1)
  let ?u = "tasks sta ! i"
  have l2: "tasks stb = map (\<lambda>t. if id' t = id' ?u then t\<lparr>completed := newCompleted ?u\<rparr> else t) (tasks sta)"
    using okb stb_def by (simp add: toggleTaskCompletion_def)
  have t2: "tasks stb ! i = ?u\<lparr>completed := newCompleted ?u\<rparr>"
    using i1 by (simp add: l2)
  have fa: "snd (toggleTaskCompletion ea st ?t) = [DbUpdate (id' ?t) (toggle_patch ea ?t)]"
    using oka by (simp add: toggleTaskCompletion_def)
  have fb: "snd (toggleTaskCompletion eb sta ?u) = [DbUpdate (id' ?u) (toggle_patch eb ?u)]"
    using okb by (simp add: toggleTaskCompletion_def)
  show ?thesis
    unfolding fa fb t2 unfolding t1
    by (auto simp: newCompleted_def toggle_patch_def)
qed

theorem C4_toggle_flips_and_returns_witness:
  "tasks (fst (toggleTaskCompletion ex_env ex_state ex_task)) ! 0 = ex_task\<lparr>completed := 1\<rparr> \<and>
   tasks (fst (toggleTaskCompletion ex_env (fst (toggleTaskCompletion ex_env ex_state ex_task))
                 (ex_task\<lparr>completed := 1\<rparr>))) ! 0 = ex_task \<and>
   snd (toggleTaskCompletion ex_env ex_state ex_task) =
     [DbUpdate (js_str ''task_1699999999000'')
        \<lparr>patch_completed = Some 1, patch_title = None, patch_deadline = None,
         patch_updated_at = Some (js_str ''2023-11-14T22:13:20.124Z'')\<rparr>]"
proof -
  have i: "0 < length (tasks ex_state)"
    by (simp add: ex_state_def)
  have t: "tasks ex_state ! 0 = ex_task"
    by (simp add: ex_state_def)
  have ok: "db_update ex_env k p = Fulfilled ()" for k p
    by (simp add: ex_env_def)
  have c: "completed ex_task = 0" "id' ex_task = js_str ''task_1699999999000''"
    by (simp_all add: ex_task_def)
  have iso: "iso_updated ex_env = js_str ''2023-11-14T22:13:20.124Z''"
    by (simp add: ex_env_def)
  note inst = C4_toggle_flips_and_returns [where ea = ex_env and eb = ex_env, OF i ok refl ok refl,
      unfolded t]
  from inst [THEN conjunct1]
  have first: "tasks (fst (toggleTaskCompletion ex_env ex_state ex_task)) ! 0 =
      ex_task\<lparr>completed := 1\<rparr>"
    by (simp add: c)
  from inst [THEN conjunct2, THEN conjunct2, THEN conjunct2, THEN conjunct1]
  have "tasks (fst (toggleTaskCompletion ex_env
        (fst (toggleTaskCompletion ex_env ex_state ex_task))
        (tasks (fst (toggleTaskCompletion ex_env ex_state ex_task)) ! 0))) ! 0 = ex_task"
    by (simp add: c)
  then have second: "tasks (fst (toggleTaskCompletion ex_env
        (fst (toggleTaskCompletion ex_env ex_state ex_task)) (ex_task\<lparr>completed := 1\<rparr>))) ! 0 =
      ex_task"
    by (simp only: first)
  from inst [THEN conjunct2, THEN conjunct2, THEN conjunct2, THEN conjunct2, THEN conjunct1]
  have "snd (toggleTaskCompletion ex_env ex_state ex_task) =
      [DbUpdate (id' ex_task)
         \<lparr>patch_completed =
            Some (completed (tasks (fst (toggleTaskCompletion ex_env ex_state ex_task)) ! 0)),
          patch_title = None, patch_deadline = None,
          patch_updated_at = Some (iso_updated ex_env)\<rparr>]"
    by simp
  then have third: "snd (toggleTaskCompletion ex_env ex_state ex_task) =
      [DbUpdate (js_str ''task_1699999999000'')
         \<lparr>patch_completed = Some 1, patch_title = None, patch_deadline = None,
          patch_updated_at = Some (js_str ''2023-11-14T22:13:20.124Z'')\<rparr>]"
    by (simp add: first c iso)
  from first second third show ?thesis
    by simp
qed

text \<open>
  The claim as written also says that each call strictly increases the record's
  \<^verbatim>\<open>updated_at\<close>. In the store it does not: after a successful toggle the record has
  the \<^verbatim>\<open>updated_at\<close> it had before (strings compared in lexicographic order, the order
  of ISO timestamps). And a call whose remote update fails flips nothing.
\<close>

theorem C4_updated_at_not_increased:
  "ex_task \<in> set (tasks ex_state) \<and>
   db_update ex_env (id' ex_task) (toggle_patch ex_env ex_task) = Fulfilled () \<and>
   id' (hd (tasks (fst (toggleTaskCompletion ex_env ex_state ex_task)))) = id' ex_task \<and>
   completed (hd (tasks (fst (toggleTaskCompletion ex_env ex_state ex_task)))) = 1 \<and>
   updated_at (hd (tasks (fst (toggleTaskCompletion ex_env ex_state ex_task)))) =
     updated_at ex_task \<and>
   \<not> updated_at ex_task
       < updated_at (hd (tasks (fst (toggleTaskCompletion ex_env ex_state ex_task)))) \<and>
   completed ex_task = 0 \<and>
   completed (hd (tasks (fst (toggleTaskCompletion ex_env_offline ex_state ex_task)))) = 0"
  by (simp add: toggleTaskCompletion_def newCompleted_def ex_env_offline_def ex_env_def
      ex_state_def ex_task_def)

text \<open>
  Claim C5 (as amended). An edit whose title is the empty string is not rejected:
  \<^verbatim>\<open>saveTaskEdit\<close> validates nothing. With an edit open it sends the empty title to the
  remote update and, when that succeeds, stores the empty title and the entered deadline in
  every record that has the edited id. The store content is unchanged exactly when no edit is
  open, or the remote update fails, or every record with the edited id already has the empty
  title and the entered deadline. No alert is shown on any path.
\<close>

theorem C5_empty_title_is_saved:
  assumes empty: "editTitle st = []"
  shows "(case editingTask st of
            None \<Rightarrow> saveTaskEdit e st = (st, [])
          | Some et \<Rightarrow>
              hd (snd (saveTaskEdit e st)) =
                DbUpdate (id' et)
                  \<lparr>patch_completed = None, patch_title = Some [],
                   patch_deadline = Some (if editDeadline st = [] then None
                                          else Some (editDeadline st)),
                   patch_updated_at = Some (iso_updated e)\<rparr> \<and>
              (case db_update e (id' et) (edit_patch e st) of
                 Rejected \<Rightarrow> fst (saveTaskEdit e st) = st
               | Fulfilled _ \<Rightarrow>
                   tasks (fst (saveTaskEdit e st)) =
                     map (\<lambda>t. if id' t = id' et
                               then t\<lparr>title := [], deadline := Some (editDeadline st)\<rparr>
                               else t)
                       (tasks st))) \<and>
         (tasks (fst (saveTaskEdit e st)) = tasks st) =
           (case editingTask st of
              None \<Rightarrow> True
            | Some et \<Rightarrow>
                db_update e (id' et) (edit_patch e st) = Rejected \<or>
                list_all (\<lambda>t. id' t = id' et \<longrightarrow>
                              title t = [] \<and> deadline t = Some (editDeadline st))
                  (tasks st)) \<and>
         filter (\<lambda>x. case x of Alert _ \<Rightarrow> True | _ \<Rightarrow> False) (snd (saveTaskEdit e st)) = []"
proof -
  have fixed: "(t\<lparr>title := ttl, deadline := Some d\<rparr> = t) = (title t = ttl \<and> deadline t = Some d)"
    for t :: Task and ttl d
  proof
    assume eq: "t\<lparr>title := ttl, deadline := Some d\<rparr> = t"
    have "title (t\<lparr>title := ttl, deadline := Some d\<rparr>) = ttl"
      "deadline (t\<lparr>title := ttl, deadline := Some d\<rparr>) = Some d"
      by simp_all
    then show "title t = ttl \<and> deadline t = Some d"
      unfolding eq by simp
  next
    assume "title t = ttl \<and> deadline t = Some d"
    then show "t\<lparr>title := ttl, deadline := Some d\<rparr> = t"
      by (cases t) simp
  qed
  have unchanged:
    "(map (\<lambda>t. if id' t = k then t\<lparr>title := ttl, deadline := Some d\<rparr> else t) xs = xs) =
     list_all (\<lambda>t. id' t = k \<longrightarrow> title t = ttl \<and> deadline t = Some d) xs"
    for k ttl d and xs :: "Task list"
  proof (induction xs)
    case Nil
    show ?case by simp
  next
    case (Cons a xs)
    show ?case
    proof (cases "id' a = k")
      case True
      let ?f = "\<lambda>t. if id' t = k then t\<lparr>title := ttl, deadline := Some d\<rparr> else t"
      let ?P = "\<lambda>t. id' t = k \<longrightarrow> title t = ttl \<and> deadline t = Some d"
      have "(map ?f (a # xs) = a # xs) =
          (a\<lparr>title := ttl, deadline := Some d\<rparr> = a \<and> map ?f xs = xs)"
        using True by simp
      also have "\<dots> = ((title a = ttl \<and> deadline a = Some d) \<and> list_all ?P xs)"
        by (simp only: fixed Cons.IH)
      also have "\<dots> = list_all ?P (a # xs)"
        using True by simp
      finally show ?thesis .
    next
      case False
      with Cons show ?thesis
        by simp
    qed
  qed
  have patch: "\<lparr>patch_completed = None, patch_title = Some [],
                 patch_deadline = Some (if editDeadline st = [] then None
                                        else Some (editDeadline st)),
                 patch_updated_at = Some (iso_updated e)\<rparr> = edit_patch e st"
    by (simp add: edit_patch_def empty)
  show ?thesis
  proof (cases "editingTask st")
    case None
    then show ?thesis
      by (simp add: saveTaskEdit_def)
  next
    case (Some et)
    show ?thesis
    proof (cases "db_update e (id' et) (edit_patch e st)")
      case Rejected
      with Some show ?thesis
        unfolding patch by (simp add: saveTaskEdit_def)
    next
      case (Fulfilled u)
      with Some show ?thesis
        unfolding patch by (simp add: saveTaskEdit_def empty unchanged)
    qed
  qed
qed

theorem C5_empty_title_is_saved_witness:
  "saveTaskEdit ex_env ex_state = (ex_state, []) \<and>
   tasks (fst (saveTaskEdit ex_env ex_state_editing)) =
     [ex_task\<lparr>title := [], deadline := Some []\<rparr>, ex_task_b] \<and>
   tasks (fst (saveTaskEdit ex_env ex_state_editing)) \<noteq> tasks ex_state_editing"
proof -
  have a: "editTitle ex_state = []" "editingTask ex_state = None"
    by (simp_all add: ex_state_def)
  have b: "editTitle ex_state_editing = []" "editingTask ex_state_editing = Some ex_task"
    "editDeadline ex_state_editing = []" "tasks ex_state_editing = [ex_task, ex_task_b]"
    by (simp_all add: ex_state_editing_def openEditModal_def ex_state_def ex_task_def)
  have ok: "db_update ex_env k p = Fulfilled ()" for k p
    by (simp add: ex_env_def)
  have ids: "id' ex_task_b \<noteq> id' ex_task"
    by (simp add: ex_task_def ex_task_b_def js_str_def)
  have ttl: "title ex_task \<noteq> []"
    by (simp add: ex_task_def js_str_def)
  from C5_empty_title_is_saved [OF a(1), of ex_env, THEN conjunct1]
  have 1: "saveTaskEdit ex_env ex_state = (ex_state, [])"
    by (simp add: a)
  from C5_empty_title_is_saved [OF b(1), of ex_env, THEN conjunct1]
  have 2: "tasks (fst (saveTaskEdit ex_env ex_state_editing)) =
      [ex_task\<lparr>title := [], deadline := Some []\<rparr>, ex_task_b]"
    by (simp add: b ok ids)
  from C5_empty_title_is_saved [OF b(1), of ex_env, THEN conjunct2, THEN conjunct1]
  have 3: "tasks (fst (saveTaskEdit ex_env ex_state_editing)) \<noteq> tasks ex_state_editing"
    by (simp add: b ok ttl)
  from 1 2 3 show ?thesis
    by simp
qed

text \<open>
  The claim as written says that the edit is rejected and the store left unchanged. With the
  dialog open on the first task and the title emptied, the save goes through: one remote
  update, no alert, and the first task's title is the empty string afterwards.
\<close>

theorem C5_empty_title_not_rejected:
  "editTitle ex_state_editing = [] \<and>
   tasks ex_state_editing = [ex_task, ex_task_b] \<and>
   title ex_task \<noteq> [] \<and>
   title (hd (tasks (fst (saveTaskEdit ex_env ex_state_editing)))) = [] \<and>
   tasks (fst (saveTaskEdit ex_env ex_state_editing)) \<noteq> tasks ex_state_editing \<and>
   snd (saveTaskEdit ex_env ex_state_editing) =
     [DbUpdate (id' ex_task)
        \<lparr>patch_completed = None, patch_title = Some [], patch_deadline = Some None,
         patch_updated_at = Some (iso_updated ex_env)\<rparr>]"
  by (simp add: saveTaskEdit_def edit_patch_def ex_state_editing_def openEditModal_def
      ex_env_def ex_state_def ex_task_def js_str_def)

text \<open>
  Claim C9 (as amended). When the remote delete succeeds, \<^verbatim>\<open>deleteTask\<close> removes from
  the local list every record with the given id and keeps the others in order, so the id is
  no longer present; a second delete of the same id, whatever the remote answers, leaves the
  whole state as it is and shows no alert (a remote failure is logged to the console only).
\<close>

theorem C9_delete_then_delete_again:
  assumes first: "db_delete ea taskId = Fulfilled ()"
  shows "tasks (fst (deleteTask ea st taskId)) = filter (\<lambda>t. id' t \<noteq> taskId) (tasks st) \<and>
         taskId \<notin> set (map id' (tasks (fst (deleteTask ea st taskId)))) \<and>
         fst (deleteTask eb (fst (deleteTask ea st taskId)) taskId) =
           fst (deleteTask ea st taskId) \<and>
         snd (deleteTask eb (fst (deleteTask ea st taskId)) taskId) =
           (if db_delete eb taskId = Rejected then [DbDelete taskId, ConsoleError]
            else [DbDelete taskId])"
proof -
  let ?s = "fst (deleteTask ea st taskId)"
  have 1: "tasks ?s = filter (\<lambda>t. id' t \<noteq> taskId) (tasks st)"
    using first by (simp add: deleteTask_def)
  have 2: "filter (\<lambda>t. id' t \<noteq> taskId) (tasks ?s) = tasks ?s"
    by (simp add: 1)
  have 3: "fst (deleteTask eb s taskId) = s"
    if "filter (\<lambda>t. id' t \<noteq> taskId) (tasks s) = tasks s" for s
    using that by (simp add: deleteTask_def split: promise.split)
  have 4: "snd (deleteTask eb s taskId) =
      (if db_delete eb taskId = Rejected then [DbDelete taskId, ConsoleError]
       else [DbDelete taskId])" for s
    by (simp add: deleteTask_def split: promise.split)
  have 5: "taskId \<notin> set (map id' (tasks ?s))"
    by (auto simp: 1)
  from 1 5 3 [OF 2] 4 show ?thesis
    by simp
qed

theorem C9_delete_then_delete_again_witness:
  "tasks (fst (deleteTask ex_env ex_state (id' ex_task))) = [ex_task_b] \<and>
   fst (deleteTask ex_env (fst (deleteTask ex_env ex_state (id' ex_task))) (id' ex_task)) =
     fst (deleteTask ex_env ex_state (id' ex_task)) \<and>
   snd (deleteTask ex_env (fst (deleteTask ex_env ex_state (id' ex_task))) (id' ex_task)) =
     [DbDelete (id' ex_task)]"
proof -
  have ok: "db_delete ex_env (id' ex_task) = Fulfilled ()"
    by (simp add: ex_env_def)
  have ids: "id' ex_task_b \<noteq> id' ex_task"
    by (simp add: ex_task_def ex_task_b_def js_str_def)
  have t: "tasks ex_state = [ex_task, ex_task_b]"
    by (simp add: ex_state_def)
  from C9_delete_then_delete_again [OF ok, of ex_state ex_env] show ?thesis
    by (simp add: t ids ok)
qed

text \<open>
  The claim as written says that a delete removes the task, with no condition. The remote
  delete is awaited first: when it fails the list is not filtered and the task is still in
  the store.
\<close>

theorem C9_failed_delete_removes_nothing:
  "ex_task \<in> set (tasks ex_state) \<and>
   db_delete ex_env_delete_fails (id' ex_task) = Rejected \<and>
   deleteTask ex_env_delete_fails ex_state (id' ex_task) =
     (ex_state, [DbDelete (id' ex_task), ConsoleError]) \<and>
   ex_task \<in> set (tasks (fst (deleteTask ex_env_delete_fails ex_state (id' ex_task))))"
  by (simp add: deleteTask_def ex_env_delete_fails_def ex_state_def)

text \<open>
  Claim C10. The local update of \<^verbatim>\<open>toggleTaskCompletion\<close> keeps the length and the
  order of the list; a record whose id differs from the toggled task's is unchanged; a record
  with that id changes in \<open>completed\<close> only (and only when the remote update succeeded), so
  its \<^verbatim>\<open>updated_at\<close>, title, deadline, \<^verbatim>\<open>created_at\<close> and every other field
  are as before; nothing else in the component's state changes.
\<close>

theorem C10_toggle_changes_completed_only:
  "length (tasks (fst (toggleTaskCompletion e st task))) = length (tasks st) \<and>
   (\<forall>i < length (tasks st).
      tasks (fst (toggleTaskCompletion e st task)) ! i =
        (if id' (tasks st ! i) = id' task \<and>
            db_update e (id' task) (toggle_patch e task) \<noteq> Rejected
         then (tasks st ! i)\<lparr>completed := newCompleted task\<rparr>
         else tasks st ! i) \<and>
      (tasks (fst (toggleTaskCompletion e st task)) ! i)\<lparr>completed := 0\<rparr> =
        (tasks st ! i)\<lparr>completed := 0\<rparr> \<and>
      updated_at (tasks (fst (toggleTaskCompletion e st task)) ! i) = updated_at (tasks st ! i) \<and>
      title (tasks (fst (toggleTaskCompletion e st task)) ! i) = title (tasks st ! i) \<and>
      deadline (tasks (fst (toggleTaskCompletion e st task)) ! i) = deadline (tasks st ! i) \<and>
      created_at (tasks (fst (toggleTaskCompletion e st task)) ! i) =
        created_at (tasks st ! i)) \<and>
   fst (toggleTaskCompletion e st task) =
     st\<lparr>tasks := tasks (fst (toggleTaskCompletion e st task))\<rparr>"
  by (simp add: toggleTaskCompletion_def split: promise.split)

theorem C10_toggle_changes_completed_only_witness:
  "tasks (fst (toggleTaskCompletion ex_env ex_state ex_task_b)) ! 0 = ex_task \<and>
   tasks (fst (toggleTaskCompletion ex_env ex_state ex_task_b)) ! 1 =
     ex_task_b\<lparr>completed := 0\<rparr> \<and>
   updated_at (tasks (fst (toggleTaskCompletion ex_env ex_state ex_task_b)) ! 1) =
     updated_at ex_task_b \<and>
   length (tasks (fst (toggleTaskCompletion ex_env ex_state ex_task_b))) = 2"
proof -
  have t: "tasks ex_state = [ex_task, ex_task_b]"
    by (simp add: ex_state_def)
  have ids: "id' ex_task \<noteq> id' ex_task_b"
    by (simp add: ex_task_def ex_task_b_def js_str_def)
  have ok: "db_update ex_env k p = Fulfilled ()" for k p
    by (simp add: ex_env_def)
  have c: "newCompleted ex_task_b = 0"
    by (simp add: newCompleted_def ex_task_b_def)
  note inst = C10_toggle_changes_completed_only [of ex_env ex_state ex_task_b, unfolded t]
  from inst [THEN conjunct1]
  have len: "length (tasks (fst (toggleTaskCompletion ex_env ex_state ex_task_b))) = 2"
    by simp
  from inst [THEN conjunct2, THEN conjunct1, THEN spec, of 0]
  have first: "tasks (fst (toggleTaskCompletion ex_env ex_state ex_task_b)) ! 0 = ex_task"
    by (simp add: ids)
  from inst [THEN conjunct2, THEN conjunct1, THEN spec, of 1]
  have second: "tasks (fst (toggleTaskCompletion ex_env ex_state ex_task_b)) ! 1 =
      ex_task_b\<lparr>completed := 0\<rparr> \<and>
    updated_at (tasks (fst (toggleTaskCompletion ex_env ex_state ex_task_b)) ! 1) =
      updated_at ex_task_b"
    by (simp add: ok c)
  from len first second show ?thesis
    by simp
qed

subsection \<open>The record control\<close>

lemma quiet_createTask:
  "filter is_start_effect (snd (createTaskFromTranscription e st tr)) = [] \<and>
   recordingDuration (fst (createTaskFromTranscription e st tr)) = recordingDuration st \<and>
   runningIntervals (fst (createTaskFromTranscription e st tr)) = runningIntervals st"
  by (simp add: createTaskFromTranscription_def Let_def split: option.split promise.split)

lemma quiet_createTask_part_000:
  "filter is_start_effect (snd (createTaskFromTranscription_part_000 e st tr)) = [] \<and>
   recordingDuration (fst (createTaskFromTranscription_part_000 e st tr)) = recordingDuration st \<and>
   runningIntervals (fst (createTaskFromTranscription_part_000 e st tr)) = runningIntervals st"
  by (simp add: createTaskFromTranscription_part_000_def Let_def
      split: option.split promise.split)

lemma quiet_addSampleTask_from:
  "filter is_start_effect (snd (addSampleTask_from xs r e st)) = [] \<and>
   recordingDuration (fst (addSampleTask_from xs r e st)) = recordingDuration st \<and>
   runningIntervals (fst (addSampleTask_from xs r e st)) = runningIntervals st"
  by (simp add: addSampleTask_from_def Let_def split: option.split promise.split)

lemma quiet_transcribeAudio:
  "filter is_start_effect (snd (transcribeAudio e st a)) = [] \<and>
   recordingDuration (fst (transcribeAudio e st a)) = recordingDuration st \<and>
   runningIntervals (fst (transcribeAudio e st a)) = runningIntervals st"
  using quiet_createTask [of e st]
  by (simp add: transcribeAudio_def case_prod_beta split: promise.split)

lemma quiet_transcribeAudio_part_000:
  "filter is_start_effect (snd (transcribeAudio_part_000 e st a)) = [] \<and>
   recordingDuration (fst (transcribeAudio_part_000 e st a)) = recordingDuration st \<and>
   runningIntervals (fst (transcribeAudio_part_000 e st a)) = runningIntervals st"
  using quiet_createTask_part_000 [of e st]
  by (simp add: transcribeAudio_part_000_def case_prod_beta split: promise.split)

lemma quiet_transcribeAudioFromFile:
  "filter is_start_effect (snd (transcribeAudioFromFile e st a)) = [] \<and>
   recordingDuration (fst (transcribeAudioFromFile e st a)) = recordingDuration st \<and>
   runningIntervals (fst (transcribeAudioFromFile e st a)) = runningIntervals st"
  using quiet_transcribeAudio [of e st]
  by (simp add: transcribeAudioFromFile_def case_prod_beta split: promise.split)

lemma quiet_clear_timer:
  "filter is_start_effect (snd (clear_timer st)) = [] \<and>
   recordingDuration (fst (clear_timer st)) = recordingDuration st \<and>
   set (runningIntervals (fst (clear_timer st))) \<subseteq> set (runningIntervals st)"
  by (auto simp: clear_timer_def split: option.split)

lemma quiet_stopRecording:
  "filter is_start_effect (snd (stopRecording e st)) = [] \<and>
   recordingDuration (fst (stopRecording e st)) = recordingDuration st \<and>
   set (runningIntervals (fst (stopRecording e st))) \<subseteq> set (runningIntervals st)"
proof -
  let ?s = "st\<lparr>isRecording := False, isTranscribing := True\<rparr>"
  obtain st1 effs1 where ct: "clear_timer ?s = (st1, effs1)"
    by (cases "clear_timer ?s")
  have q1: "filter is_start_effect effs1 = []" "recordingDuration st1 = recordingDuration st"
    "set (runningIntervals st1) \<subseteq> set (runningIntervals st)"
    using quiet_clear_timer [of ?s] ct by simp_all
  have "filter is_start_effect (snd (transcribeAudioFromFile e st1 uri)) = [] \<and>
      recordingDuration (fst (transcribeAudioFromFile e st1 uri)) = recordingDuration st1 \<and>
      runningIntervals (fst (transcribeAudioFromFile e st1 uri)) = runningIntervals st1" for uri
    by (rule quiet_transcribeAudioFromFile)
  then show ?thesis
    by (simp add: stopRecording_def ct q1 case_prod_beta split: option.split promise.split)
qed

lemma quiet_stopRecording_part_000:
  "filter is_start_effect (snd (stopRecording_part_000 e st)) = [] \<and>
   recordingDuration (fst (stopRecording_part_000 e st)) = recordingDuration st \<and>
   runningIntervals (fst (stopRecording_part_000 e st)) = runningIntervals st"
proof -
  let ?s = "st\<lparr>isRecording := False, isTranscribing := True\<rparr>"
  have "filter is_start_effect (snd (transcribeAudio_part_000 e ?s uri)) = [] \<and>
      recordingDuration (fst (transcribeAudio_part_000 e ?s uri)) = recordingDuration ?s \<and>
      runningIntervals (fst (transcribeAudio_part_000 e ?s uri)) = runningIntervals ?s" for uri
    by (rule quiet_transcribeAudio_part_000)
  then show ?thesis
    by (simp add: stopRecording_part_000_def Let_def case_prod_beta
        split: option.split promise.split)
qed

lemma press_all_transcribing: "isTranscribing st \<Longrightarrow> press_all es st = st"
  by (induction es) (simp_all add: press_all_def recordButtonPress_def)

lemma press_all_part_000_transcribing:
  "isTranscribing st \<Longrightarrow> press_all_part_000 es st = st"
  by (induction es) (simp_all add: press_all_part_000_def recordButtonPress_part_000_def
      case_prod_beta)

text \<open>
  The guard of the record control. While one of the flags \<^verbatim>\<open>isRecording\<close> and
  \<^verbatim>\<open>isTranscribing\<close> is set, a press does not run \<^verbatim>\<open>startRecording\<close>: with
  \<^verbatim>\<open>isTranscribing\<close> set the control is disabled, and a press, or any sequence of
  presses, changes nothing; with \<^verbatim>\<open>isRecording\<close> set a press runs
  \<^verbatim>\<open>stopRecording\<close>. Such a press opens no session, starts no timer and leaves the
  counter as it is.
\<close>

lemma recordButtonPress_while_flag_set:
  assumes busy: "isRecording st \<or> isTranscribing st"
  shows "filter is_start_effect (snd (recordButtonPress e st)) = [] \<and>
         recordingDuration (fst (recordButtonPress e st)) = recordingDuration st \<and>
         set (runningIntervals (fst (recordButtonPress e st))) \<subseteq> set (runningIntervals st) \<and>
         recordButtonPress e st = (if isTranscribing st then (st, []) else stopRecording e st) \<and>
         filter is_start_effect (snd (recordButtonPress_part_000 r e st)) = [] \<and>
         recordingDuration (fst (recordButtonPress_part_000 r e st)) = recordingDuration st \<and>
         runningIntervals (fst (recordButtonPress_part_000 r e st)) = runningIntervals st \<and>
         (isTranscribing st \<longrightarrow>
            recordButtonPress_part_000 r e st = (st, []) \<and>
            press_all es st = st \<and> press_all_part_000 res st = st)"
proof -
  have press: "recordButtonPress e st = (if isTranscribing st then (st, []) else stopRecording e st)"
    using busy by (auto simp: recordButtonPress_def)
  have press0: "recordButtonPress_part_000 r e st =
      (if isTranscribing st then (st, [])
       else if platform e = Web then addSampleTask_from sampleTasks_part_000 r e st
       else stopRecording_part_000 e st)"
    using busy by (auto simp: recordButtonPress_part_000_def addSampleTask_part_000_def)
  show ?thesis
    unfolding press press0
    using quiet_stopRecording [of e st] quiet_stopRecording_part_000 [of e st]
      quiet_addSampleTask_from [of sampleTasks_part_000 r e st]
    by (simp add: press_all_transcribing press_all_part_000_transcribing)
qed

text \<open>
  Claim C7. The claim is that a start issued while the controller is recording or
  transcribing is ignored: no second session, no timer, the counter not reset. On the device
  the control keeps it: while the transcription is awaited \<^verbatim>\<open>isTranscribing\<close> is set
  and a press does nothing. In the browser it does not. \<^verbatim>\<open>stopRecording\<close> returns as
  soon as the recorder is told to stop, and its \<^verbatim>\<open>finally\<close> block clears
  \<^verbatim>\<open>isTranscribing\<close>, while the transcription is run later by the recorder's
  \<^verbatim>\<open>onstop\<close> callback. In between both flags are off and the control is enabled. In
  the session below a recording is in progress in the browser; the first press stops
  recorder 1; a second press, before the callback has run, runs \<^verbatim>\<open>startRecording\<close>:
  recorder 2 is started, a timer is started, the counter is reset to 0; the callback then
  transcribes the first recording and creates its task while the second recording is in
  progress.
\<close>

theorem C7_web_press_during_transcription_starts_recording:
  "recordButtonPress ex_env ex_state_transcribing = (ex_state_transcribing, []) \<and>
   isRecording ex_state_recording_web \<and>
   recordingDuration ex_state_recording_web = 5 \<and>
   snd (recordButtonPress ex_env_web ex_state_recording_web) =
     [ClearInterval 3, MediaRecorderStop 1] \<and>
   \<not> isRecording (fst (recordButtonPress ex_env_web ex_state_recording_web)) \<and>
   \<not> isTranscribing (fst (recordButtonPress ex_env_web ex_state_recording_web)) \<and>
   recordingDuration (fst (recordButtonPress ex_env_web ex_state_recording_web)) = 5 \<and>
   snd (recordButtonPress ex_env_web
          (fst (recordButtonPress ex_env_web ex_state_recording_web))) =
     [GetUserMedia, MediaRecorderStart 2, SetInterval 4] \<and>
   isRecording (fst (recordButtonPress ex_env_web
          (fst (recordButtonPress ex_env_web ex_state_recording_web)))) \<and>
   recordingDuration (fst (recordButtonPress ex_env_web
          (fst (recordButtonPress ex_env_web ex_state_recording_web)))) = 0 \<and>
   runningIntervals (fst (recordButtonPress ex_env_web
          (fst (recordButtonPress ex_env_web ex_state_recording_web)))) = [4] \<and>
   currentMediaRecorder (fst (recordButtonPress ex_env_web
          (fst (recordButtonPress ex_env_web ex_state_recording_web)))) =
     Some \<lparr>mr_handle = 2, mr_recording = True\<rparr> \<and>
   snd (mediaRecorder_onstop ex_env_web
          (fst (recordButtonPress ex_env_web
             (fst (recordButtonPress ex_env_web ex_state_recording_web))))
          (js_str ''UklGRg=='')) =
     [StopTracks, AiTranscribe (js_str ''UklGRg==''),
      DbCreate (new_task ex_env_web (js_str ''u1'') (js_str ''buy milk'')),
      Alert (TaskCreated (js_str ''buy milk''))] \<and>
   isRecording (fst (mediaRecorder_onstop ex_env_web
          (fst (recordButtonPress ex_env_web
             (fst (recordButtonPress ex_env_web ex_state_recording_web))))
          (js_str ''UklGRg=='')))"
proof -
  let ?s1 = "fst (recordButtonPress ex_env_web ex_state_recording_web)"
  let ?s2 = "fst (recordButtonPress ex_env_web ?s1)"
  have native: "recordButtonPress ex_env ex_state_transcribing = (ex_state_transcribing, [])"
    by (simp add: recordButtonPress_def ex_state_transcribing_def)
  have s0: "isRecording ex_state_recording_web" "recordingDuration ex_state_recording_web = 5"
    "\<not> isTranscribing ex_state_recording_web"
    by (simp_all add: ex_state_recording_web_def ex_state_def)
  have first: "recordButtonPress ex_env_web ex_state_recording_web =
      (ex_state\<lparr>recordingDuration := 5,
                currentMediaRecorder := Some \<lparr>mr_handle = 1, mr_recording = False\<rparr>\<rparr>,
       [ClearInterval 3, MediaRecorderStop 1])"
    by (simp add: recordButtonPress_def stopRecording_def clear_timer_def
        ex_state_recording_web_def ex_env_web_def ex_env_def ex_state_def)
  have second: "recordButtonPress ex_env_web
        (ex_state\<lparr>recordingDuration := 5,
                  currentMediaRecorder := Some \<lparr>mr_handle = 1, mr_recording = False\<rparr>\<rparr>) =
      (ex_state\<lparr>isRecording := True, recordingDuration := 0, recordingTimer := Some 4,
                runningIntervals := [4],
                currentMediaRecorder := Some \<lparr>mr_handle = 2, mr_recording = True\<rparr>\<rparr>,
       [GetUserMedia, MediaRecorderStart 2, SetInterval 4])"
    by (simp add: recordButtonPress_def startRecording_def begin_timer_def ex_env_web_def
        ex_env_def ex_state_def)
  have tr: "trim (js_str ''  buy milk '') = js_str ''buy milk''"
    by (simp add: eval_string)
  have ne: "js_str ''buy milk'' \<noteq> []"
    by (simp add: js_str_def)
  have third: "mediaRecorder_onstop ex_env_web
        (ex_state\<lparr>isRecording := True, recordingDuration := 0, recordingTimer := Some 4,
                  runningIntervals := [4],
                  currentMediaRecorder := Some \<lparr>mr_handle = 2, mr_recording = True\<rparr>\<rparr>)
        (js_str ''UklGRg=='') =
      (ex_state\<lparr>isRecording := True, recordingDuration := 0, recordingTimer := Some 4,
                runningIntervals := [4],
                currentMediaRecorder := Some \<lparr>mr_handle = 2, mr_recording = True\<rparr>,
                tasks := new_task ex_env_web (js_str ''u1'') (js_str ''buy milk'') #
                         tasks ex_state\<rparr>,
       [StopTracks, AiTranscribe (js_str ''UklGRg==''),
        DbCreate (new_task ex_env_web (js_str ''u1'') (js_str ''buy milk'')),
        Alert (TaskCreated (js_str ''buy milk''))])"
    by (simp add: mediaRecorder_onstop_def transcribeAudio_def createTaskFromTranscription_def
        Let_def ex_env_web_def ex_env_def ex_state_def tr ne)
  show ?thesis
    unfolding first fst_conv snd_conv second third
    using native s0 by (simp add: ex_state_def)
qed

subsection \<open>Generated ids\<close>

lemma unat_digit_unit: "d < 10 \<Longrightarrow> unat (digit_unit d) = 48 + d"
proof -
  assume d: "d < 10"
  have "unat (digit_unit d) = (48 + d) mod 2 ^ LENGTH(16)"
    unfolding digit_unit_def by (rule unat_of_nat)
  also from d have "\<dots> = 48 + d"
    by simp
  finally show ?thesis .
qed

lemma digit_unit_inj: "a < 10 \<Longrightarrow> b < 10 \<Longrightarrow> digit_unit a = digit_unit b \<Longrightarrow> a = b"
proof -
  assume a: "a < 10" and b: "b < 10" and eq: "digit_unit a = digit_unit b"
  from eq have "unat (digit_unit a) = unat (digit_unit b)"
    by (rule arg_cong)
  with a b show ?thesis
    by (simp only: unat_digit_unit add_left_cancel)
qed

lemma digit_unit_not_minus: "d < 10 \<Longrightarrow> digit_unit d \<noteq> 0x002D"
proof
  assume d: "d < 10" and eq: "digit_unit d = 0x002D"
  from eq have "unat (digit_unit d) = unat (0x002D :: 16 word)"
    by (rule arg_cong)
  with d have "48 + d = 45"
    by (simp add: unat_digit_unit)
  then show False
    by simp
qed

lemma digits_not_Nil: "digits n \<noteq> []"
  by (subst digits.simps) simp

lemma minus_notin_digits: "0x002D \<notin> set (digits n)"
proof (induction n rule: digits.induct)
  case (1 n)
  show ?case
  proof (cases "n < 10")
    case True
    then show ?thesis
      using digit_unit_not_minus [of n] by (auto simp: digits_lt_10)
  next
    case False
    then have "n mod 10 < 10" "0x002D \<notin> set (digits (n div 10))"
      using "1.IH" by simp_all
    with False show ?thesis
      using digit_unit_not_minus [of "n mod 10"] by (auto simp: digits_ge_10)
  qed
qed

lemma digits_inj: "digits n = digits m \<Longrightarrow> n = m"
proof (induction n arbitrary: m rule: digits.induct)
  case (1 n)
  show ?case
  proof (cases "n < 10")
    case small_n: True
    show ?thesis
    proof (cases "m < 10")
      case True
      with small_n "1.prems" show ?thesis
        by (simp add: digits_lt_10 digit_unit_inj)
    next
      case False
      with small_n "1.prems" digits_not_Nil [of "m div 10"] show ?thesis
        by (simp add: digits_lt_10 digits_ge_10 Cons_eq_append_conv)
    qed
  next
    case large_n: False
    show ?thesis
    proof (cases "m < 10")
      case True
      with large_n "1.prems" digits_not_Nil [of "n div 10"] show ?thesis
        by (simp add: digits_lt_10 digits_ge_10 append_eq_Cons_conv)
    next
      case False
      with large_n "1.prems"
      have "digits (n div 10) = digits (m div 10)" "digit_unit (n mod 10) = digit_unit (m mod 10)"
        by (simp_all add: digits_ge_10)
      with large_n "1.IH" [of "m div 10"] have "n div 10 = m div 10" "n mod 10 = m mod 10"
        by (simp_all add: digit_unit_inj)
      then show ?thesis
        by (metis div_mult_mod_eq)
    qed
  qed
qed

lemma number_to_string_inj: "number_to_string a = number_to_string b \<Longrightarrow> a = b"
proof -
  assume eq: "number_to_string a = number_to_string b"
  have no_minus: "0x002D # xs \<noteq> digits n" for xs n
    using minus_notin_digits [of n] by (metis list.set_intros(1))
  consider "a < 0" "b < 0" | "a < 0" "0 \<le> b" | "0 \<le> a" "b < 0" | "0 \<le> a" "0 \<le> b"
    by linarith
  then show ?thesis
  proof cases
    case 1
    with eq have "nat (- a) = nat (- b)"
      by (simp add: number_to_string_def digits_inj)
    with 1 show ?thesis by simp
  next
    case 2
    with eq no_minus show ?thesis
      by (simp add: number_to_string_def)
  next
    case 3
    with eq no_minus [of "digits (nat (- b))" "nat a"] show ?thesis
      by (simp add: number_to_string_def)
  next
    case 4
    with eq have "nat a = nat b"
      by (simp add: number_to_string_def digits_inj)
    with 4 show ?thesis by simp
  qed
qed

lemma new_task_id: "id' (new_task e uid ttl) = js_str ''task_'' @ number_to_string (date_now e)"
  by (simp add: new_task_def)

lemma generated_ids_differ:
  "date_now ea \<noteq> date_now eb \<Longrightarrow>
   js_str ''task_'' @ number_to_string (date_now ea) \<noteq>
   js_str ''task_'' @ number_to_string (date_now eb)"
  by (auto dest: number_to_string_inj)

lemma create_step_ids:
  assumes echo: "\<forall>d t. db_create e d = Fulfilled t \<longrightarrow> id' t = id' d"
  shows "map id' (tasks (create_step (e, op) st)) = map id' (tasks st) \<or>
         map id' (tasks (create_step (e, op) st)) =
           (js_str ''task_'' @ number_to_string (date_now e)) # map id' (tasks st)"
proof (cases op)
  case (VoiceCreate tr)
  show ?thesis
  proof (cases "user st")
    case None
    with VoiceCreate show ?thesis
      by (simp add: createTaskFromTranscription_def)
  next
    case (Some uid)
    show ?thesis
    proof (cases "db_create e (new_task e uid tr)")
      case Rejected
      with Some VoiceCreate show ?thesis
        by (simp add: createTaskFromTranscription_def)
    next
      case (Fulfilled t)
      with echo have "id' t = id' (new_task e uid tr)"
        by blast
      with Fulfilled Some VoiceCreate show ?thesis
        by (simp add: createTaskFromTranscription_def new_task_id)
    qed
  qed
next
  case (SampleCreate r)
  let ?ttl = "sampleTasks ! (r mod length sampleTasks)"
  show ?thesis
  proof (cases "user st")
    case None
    with SampleCreate show ?thesis
      by (simp add: addSampleTask_def addSampleTask_from_def)
  next
    case (Some uid)
    show ?thesis
    proof (cases "db_create e (new_task e uid ?ttl)")
      case Rejected
      with Some SampleCreate show ?thesis
        by (simp add: addSampleTask_def addSampleTask_from_def)
    next
      case (Fulfilled t)
      with echo have "id' t = id' (new_task e uid ?ttl)"
        by blast
      with Fulfilled Some SampleCreate show ?thesis
        by (simp add: addSampleTask_def addSampleTask_from_def new_task_id)
    qed
  qed
qed

lemma fold_create_step_distinct:
  assumes "\<forall>(e, op)\<in>set ops. \<forall>d t. db_create e d = Fulfilled t \<longrightarrow> id' t = id' d"
    and "distinct (map (\<lambda>(e, op). date_now e) ops)"
    and "distinct (map id' (tasks st))"
    and "\<forall>(e, op)\<in>set ops.
           js_str ''task_'' @ number_to_string (date_now e) \<notin> set (map id' (tasks st))"
  shows "distinct (map id' (tasks (fold create_step ops st)))"
  using assms
proof (induction ops arbitrary: st)
  case Nil
  then show ?case by simp
next
  case (Cons x ops)
  obtain e op where x: "x = (e, op)"
    by (cases x)
  let ?g = "\<lambda>e. js_str ''task_'' @ number_to_string (date_now e)"
  let ?st = "create_step (e, op) st"
  from Cons.prems(1) x have echo: "\<forall>d t. db_create e d = Fulfilled t \<longrightarrow> id' t = id' d"
    by simp
  from Cons.prems(4) x have fresh_e: "?g e \<notin> set (map id' (tasks st))"
    by simp
  have ids: "set (map id' (tasks ?st)) \<subseteq> insert (?g e) (set (map id' (tasks st)))"
  proof -
    from create_step_ids [OF echo, of op st]
    have "set (map id' (tasks ?st)) = set (map id' (tasks st)) \<or>
        set (map id' (tasks ?st)) = set (?g e # map id' (tasks st))"
      by (metis (no_types))
    then show ?thesis
      by (elim disjE) (simp_all only: list.set, blast+)
  qed
  have d: "distinct (map id' (tasks ?st))"
    using create_step_ids [OF echo, of op st] Cons.prems(3) fresh_e by auto
  have others: "?g e' \<notin> set (map id' (tasks ?st))" if "(e', op') \<in> set ops" for e' op'
  proof -
    from that Cons.prems(2) x have "date_now e' \<noteq> date_now e"
      by (auto simp: image_iff)
    then have "?g e' \<noteq> ?g e"
      by (rule generated_ids_differ)
    moreover from that Cons.prems(4) have "?g e' \<notin> set (map id' (tasks st))"
      by auto
    ultimately show ?thesis
      using ids by auto
  qed
  have "distinct (map id' (tasks (fold create_step ops ?st)))"
  proof (rule Cons.IH)
    show "\<forall>(e, op)\<in>set ops. \<forall>d t. db_create e d = Fulfilled t \<longrightarrow> id' t = id' d"
      using Cons.prems(1) by simp
    show "distinct (map (\<lambda>(e, op). date_now e) ops)"
      using Cons.prems(2) by simp
    show "distinct (map id' (tasks ?st))"
      by (rule d)
    show "\<forall>(e, op)\<in>set ops. ?g e \<notin> set (map id' (tasks ?st))"
      using others by auto
  qed
  then show ?case
    by (simp add: x)
qed

text \<open>
  Claim C8 (as amended). A creation (from the voice pipeline or of a sample task) generates
  the id \<^verbatim>\<open>task_\<close> followed by the decimal \<^verbatim>\<open>Date.now()\<close> reading of that call. Two
  creations whose readings differ generate different ids. So, when the remote returns each
  record under the id it was given, a run of creations with pairwise different readings, on
  a collection that has no id twice and none of the ids to be generated, yields a collection
  that has no id twice.
\<close>

theorem C8_ids_differ_when_clock_differs:
  assumes echo: "\<forall>(e, op)\<in>set ops. \<forall>d t. db_create e d = Fulfilled t \<longrightarrow> id' t = id' d"
    and clock: "distinct (map (\<lambda>(e, op). date_now e) ops)"
    and start: "distinct (map id' (tasks st))"
    and fresh: "\<forall>(e, op)\<in>set ops.
                  js_str ''task_'' @ number_to_string (date_now e) \<notin> set (map id' (tasks st))"
  shows "(date_now ea \<noteq> date_now eb \<longrightarrow>
            id' (new_task ea uida titlea) \<noteq> id' (new_task eb uidb titleb)) \<and>
         distinct (map id' (tasks (run_creates ops st)))"
  using fold_create_step_distinct [OF assms] generated_ids_differ [of ea eb]
  by (simp add: run_creates_def new_task_id)

theorem C8_ids_differ_when_clock_differs_witness:
  "id' (new_task ex_env (js_str ''u1'') (js_str ''buy milk'')) \<noteq>
     id' (new_task ex_env_later (js_str ''u1'') (js_str ''buy milk'')) \<and>
   distinct (map id' (tasks (run_creates
     [(ex_env, SampleCreate 0), (ex_env_later, VoiceCreate (js_str ''buy milk''))] ex_state)))"
proof -
  let ?ops = "[(ex_env, SampleCreate 0), (ex_env_later, VoiceCreate (js_str ''buy milk''))]"
  have echo: "\<forall>(e, op)\<in>set ?ops. \<forall>d t. db_create e d = Fulfilled t \<longrightarrow> id' t = id' d"
    by (simp add: ex_env_later_def ex_env_def)
  have now: "date_now ex_env = 1700000000123" "date_now ex_env_later = 1700000000124"
    by (simp_all add: ex_env_later_def ex_env_def)
  have clock: "distinct (map (\<lambda>(e, op). date_now e) ?ops)"
    by (simp add: now)
  have ids: "map id' (tasks ex_state) = [js_str ''task_1699999999000'', js_str ''task_1699999998000'']"
    by (simp add: ex_state_def ex_task_def ex_task_b_def)
  have start: "distinct (map id' (tasks ex_state))"
    unfolding ids by (simp add: js_str_def)
  have fresh: "\<forall>(e, op)\<in>set ?ops.
      js_str ''task_'' @ number_to_string (date_now e) \<notin> set (map id' (tasks ex_state))"
    unfolding ids by (simp add: now eval_string)
  from C8_ids_differ_when_clock_differs [OF echo clock start fresh, of ex_env ex_env_later]
  show ?thesis
    by (simp add: now)
qed

text \<open>
  The claim as written says that any two creations generate different ids. A sample task and
  a voice task created at the same reading of the clock get the same id, and the local list
  then holds two records with that id.
\<close>

theorem C8_same_millisecond_same_id:
  "map id' (tasks (run_creates
     [(ex_env, SampleCreate 0), (ex_env, VoiceCreate (js_str ''buy milk''))] ex_state)) =
     [js_str ''task_1700000000123'', js_str ''task_1700000000123'',
      js_str ''task_1699999999000'', js_str ''task_1699999998000''] \<and>
   \<not> distinct (map id' (tasks (run_creates
     [(ex_env, SampleCreate 0), (ex_env, VoiceCreate (js_str ''buy milk''))] ex_state)))"
proof -
  have num: "number_to_string 1700000000123 = js_str ''1700000000123''"
    by (simp add: eval_string)
  have "map id' (tasks (run_creates
     [(ex_env, SampleCreate 0), (ex_env, VoiceCreate (js_str ''buy milk''))] ex_state)) =
     [js_str ''task_1700000000123'', js_str ''task_1700000000123'',
      js_str ''task_1699999999000'', js_str ''task_1699999998000'']"
    by (simp add: run_creates_def addSampleTask_def addSampleTask_from_def
        createTaskFromTranscription_def new_task_def Let_def ex_env_def ex_state_def ex_task_def
        ex_task_b_def num)
      (simp add: js_str_def)
  then show ?thesis
    by simp
qed

subsection \<open>The local list against the remote table\<close>

lemma onAuthStateChanged_never_lists:
  "snd (onAuthStateChanged e st state_user state_isLoading) = [] \<and>
   tasks (fst (onAuthStateChanged e st state_user state_isLoading)) = tasks st"
  by (simp add: onAuthStateChanged_def loadTasks_def Let_def split: option.split)

text \<open>
  Claim C6. The claim is that, when every remote write succeeds, a \<^verbatim>\<open>list()\<close> fetched
  after any sequence of creations, edits, toggles and deletions returns the records of the
  local list, field for field. The session of the examples shows the two apart; the remote
  list is what the service's \<^verbatim>\<open>list\<close> holds for the user at that point. After the
  creation the local list and the remote list are the same. After the toggle both have
  \<open>completed = 1\<close>, but the remote record carries the \<^verbatim>\<open>updated_at\<close> sent with the
  update while the local record still has the one of its creation. After the edit with an
  empty deadline field the remote record has no deadline (null) and the local record has the
  empty string, and the \<^verbatim>\<open>updated_at\<close> differ in the same way.
\<close>

theorem C6_local_list_differs_from_remote_list:
  "tasks (fst ex_created) = remote_list (js_str ''u1'') (snd ex_created) \<and>
   map completed (tasks (fst ex_toggled)) = [1] \<and>
   map completed (remote_list (js_str ''u1'') (snd ex_toggled)) = [1] \<and>
   map updated_at (tasks (fst ex_toggled)) = [js_str ''2023-11-14T22:13:20.124Z''] \<and>
   map updated_at (remote_list (js_str ''u1'') (snd ex_toggled)) =
     [js_str ''2023-11-14T22:13:20.125Z''] \<and>
   tasks (fst ex_toggled) \<noteq> remote_list (js_str ''u1'') (snd ex_toggled) \<and>
   map deadline (tasks (fst ex_edited)) = [Some []] \<and>
   map deadline (remote_list (js_str ''u1'') (snd ex_edited)) = [None] \<and>
   tasks (fst ex_edited) \<noteq> remote_list (js_str ''u1'') (snd ex_edited)"
proof -
  let ?t = "new_task ex_env (js_str ''u1'') (sampleTasks ! 0)"
  have created: "ex_created = (ex_state\<lparr>tasks := [?t]\<rparr>, [?t])"
    by (simp add: ex_created_def run_with_remote_def remote_env_def addSampleTask_def
        addSampleTask_from_def Let_def sampleTasks_def ex_state_def ex_env_def new_task_def)
  have fields: "user_id ?t = js_str ''u1''" "completed ?t = 0" "deadline ?t = None"
    "updated_at ?t = js_str ''2023-11-14T22:13:20.124Z''"
    by (simp_all add: new_task_def ex_env_def)
  have later: "iso_updated ex_env_later = js_str ''2023-11-14T22:13:20.125Z''"
    by (simp add: ex_env_later_def)
  have toggled: "ex_toggled =
      (ex_state\<lparr>tasks := [?t\<lparr>completed := 1\<rparr>]\<rparr>,
       [?t\<lparr>completed := 1, updated_at := js_str ''2023-11-14T22:13:20.125Z''\<rparr>])"
    by (simp add: ex_toggled_def created run_with_remote_def remote_env_def
        toggleTaskCompletion_def toggle_patch_def newCompleted_def apply_patch_def fields later)
  have edited: "ex_edited =
      (ex_state\<lparr>tasks := [?t\<lparr>deadline := Some []\<rparr>], editTitle := title ?t\<rparr>,
       [?t\<lparr>updated_at := js_str ''2023-11-14T22:13:20.125Z''\<rparr>])"
    by (simp add: ex_edited_def created run_with_remote_def remote_env_def saveTaskEdit_def
        edit_patch_def openEditModal_def apply_patch_def fields later ex_state_def)
  have neq: "js_str ''2023-11-14T22:13:20.124Z'' \<noteq> js_str ''2023-11-14T22:13:20.125Z''"
    by (simp add: js_str_def)
  have u: "t \<noteq> t'" if "updated_at t \<noteq> updated_at t'" for t t' :: Task
    using that by auto
  have d1: "?t\<lparr>completed := 1\<rparr> \<noteq>
      ?t\<lparr>completed := 1, updated_at := js_str ''2023-11-14T22:13:20.125Z''\<rparr>"
    by (rule u) (simp add: fields neq)
  have d2: "?t\<lparr>deadline := Some []\<rparr> \<noteq> ?t\<lparr>updated_at := js_str ''2023-11-14T22:13:20.125Z''\<rparr>"
    by (rule u) (simp add: fields neq)
  show ?thesis
    unfolding created toggled edited
    using d1 d2 by (simp add: remote_list_def fields)
qed

end
